theory Spec2Isabelle
  imports Main "HOL-Library.Char_ord" "HOL-Library.List_Lexorder"
begin

section \<open>Data model\<close>

text \<open>
  The classes \<open>Entry\<close>, \<open>Edge\<close>, \<open>Source\<close> and \<open>Backlink\<close> are declared in
  \<open>server/kb.py\<close>; the records below carry the attributes that \<open>viewer/build.py\<close>,
  \<open>server/tools.py\<close> and \<open>server/cli.py\<close> read. A Python \<open>str\<close> is a \<open>string\<close>;
  an attribute that may be \<open>None\<close> is a \<open>string option\<close>.
\<close>

record edge =
  edge_path :: string
  edge_label :: string
  edge_description :: "string option"

record source =
  source_url :: string
  source_title :: "string option"

record entry =
  entry_path :: string
  entry_slug :: string
  entry_title :: string
  entry_type :: string
  entry_summary :: string
  entry_tags :: "string list"
  entry_created :: string
  entry_updated :: "string option"
  entry_edges :: "edge list"
  entry_sources :: "source list"
  entry_body :: string

text \<open>
  A backlink: the dict \<open>{"path", "title", "label", "description"}\<close> of \<open>build\<close>, and
  the object with the same four attributes that \<open>kb.get_backlinks\<close> returns.
\<close>

record backlink =
  bl_path :: string
  bl_title :: string
  bl_label :: string
  bl_description :: "string option"

text \<open>Python truthiness of an optional string: \<open>None\<close> and \<open>""\<close> are false.\<close>

fun truthy :: "string option \<Rightarrow> bool" where
  "truthy None = False"
| "truthy (Some s) = (s \<noteq> [])"

section \<open>The viewer: \<open>build\<close> of viewer/build.py\<close>

subsection \<open>The backlink dictionary (lines 30, 38-45, 53)\<close>

text \<open>
  \<open>backlinks\<close> is a \<open>defaultdict(list)\<close>: \<open>backlinks[k].append(v)\<close> creates the
  empty list under a missing key before appending, and \<open>backlinks.get(k, [])\<close> reads
  without creating.
\<close>

type_synonym backlink_dict = "string \<rightharpoonup> backlink list"

definition dd_append :: "backlink_dict \<Rightarrow> string \<Rightarrow> backlink \<Rightarrow> backlink_dict" where
  "dd_append d k v = d(k \<mapsto> (case d k of None \<Rightarrow> [] | Some l \<Rightarrow> l) @ [v])"

definition dd_get :: "backlink_dict \<Rightarrow> string \<Rightarrow> backlink list" where
  "dd_get d k = (case d k of None \<Rightarrow> [] | Some l \<Rightarrow> l)"

definition backlink_of :: "entry \<Rightarrow> edge \<Rightarrow> backlink" where
  "backlink_of en e =
     \<lparr>bl_path = entry_path en, bl_title = entry_title en,
      bl_label = edge_label e, bl_description = edge_description e\<rparr>"

text \<open>The inner loop \<open>for edge in entry.edges\<close> of lines 39-45.\<close>

fun backlinks_of_edges :: "entry \<Rightarrow> edge list \<Rightarrow> backlink_dict \<Rightarrow> backlink_dict" where
  "backlinks_of_edges en [] d = d"
| "backlinks_of_edges en (e # es) d =
     backlinks_of_edges en es (dd_append d (edge_path e) (backlink_of en e))"

text \<open>The outer loop \<open>for entry in entries\<close> of line 38.\<close>

fun collect_backlinks :: "entry list \<Rightarrow> backlink_dict \<Rightarrow> backlink_dict" where
  "collect_backlinks [] d = d"
| "collect_backlinks (en # ens) d =
     collect_backlinks ens (backlinks_of_edges en (entry_edges en) d)"

subsection \<open>The serialised snapshot (lines 47-106)\<close>

record edge_json =
  ej_path :: string
  ej_label :: string
  ej_description :: "string option"

record source_json =
  sj_url :: string
  sj_title :: "string option"

record entry_json =
  d_path :: string
  d_slug :: string
  d_title :: string
  d_type :: string
  d_summary :: string
  d_tags :: "string list"
  d_created :: string
  d_updated :: "string option"
  d_edges :: "edge_json list"
  d_backlinks :: "backlink list"
  d_sources :: "source_json list"
  d_body_html :: string

record node_json =
  n_id :: string
  n_title :: string
  n_type :: string

record graph_edge_json =
  ge_from :: string
  ge_to :: string
  ge_label :: string

record graph_json =
  g_nodes :: "node_json list"
  g_edges :: "graph_edge_json list"

record stats_json =
  s_total :: nat
  s_by_type :: "string \<rightharpoonup> nat"
  s_tags :: "string list"
  s_total_edges :: nat

record data_json =
  data_entries :: "entry_json list"
  data_graph :: graph_json
  data_stats :: stats_json

definition edge_json_of :: "edge \<Rightarrow> edge_json" where
  "edge_json_of e =
     \<lparr>ej_path = edge_path e, ej_label = edge_label e, ej_description = edge_description e\<rparr>"

definition source_json_of :: "source \<Rightarrow> source_json" where
  "source_json_of s = \<lparr>sj_url = source_url s, sj_title = source_title s\<rparr>"

text \<open>
  \<open>md\<close> stands for the optional markdown renderer: \<open>None\<close> when \<open>mistune\<close> is not
  installed, otherwise the function that takes \<open>entry.body\<close> through the \<open>re.sub\<close> of
  line 50 and \<open>_md\<close>.
\<close>

definition entry_json_of :: "(string \<Rightarrow> string) option \<Rightarrow> backlink_dict \<Rightarrow> entry \<Rightarrow> entry_json" where
  "entry_json_of md backlinks en =
     (let body_html = (case md of None \<Rightarrow> [] | Some render \<Rightarrow> render (entry_body en));
          entry_backlinks = dd_get backlinks (entry_path en)
      in \<lparr>d_path = entry_path en, d_slug = entry_slug en, d_title = entry_title en,
          d_type = entry_type en, d_summary = entry_summary en, d_tags = entry_tags en,
          d_created = entry_created en, d_updated = entry_updated en,
          d_edges = map edge_json_of (entry_edges en),
          d_backlinks = entry_backlinks,
          d_sources = map source_json_of (entry_sources en),
          d_body_html = body_html\<rparr>)"

definition node_of :: "entry \<Rightarrow> node_json" where
  "node_of en = \<lparr>n_id = entry_path en, n_title = entry_title en, n_type = entry_type en\<rparr>"

definition graph_edge_of :: "entry \<Rightarrow> edge \<Rightarrow> graph_edge_json" where
  "graph_edge_of en e = \<lparr>ge_from = entry_path en, ge_to = edge_path e, ge_label = edge_label e\<rparr>"

text \<open>The loop of lines 81-86, appending to \<open>graph_edges\<close>.\<close>

fun append_graph_edges :: "entry \<Rightarrow> edge list \<Rightarrow> graph_edge_json list \<Rightarrow> graph_edge_json list" where
  "append_graph_edges en [] ge = ge"
| "append_graph_edges en (e # es) ge = append_graph_edges en es (ge @ [graph_edge_of en e])"

text \<open>
  The loop of lines 47-86 over \<open>entries\<close>, with the three lists it appends to as the
  state: \<open>entries_data\<close>, \<open>graph_nodes\<close>, \<open>graph_edges\<close>.
\<close>

fun serialise_loop ::
  "(string \<Rightarrow> string) option \<Rightarrow> backlink_dict \<Rightarrow> entry list \<Rightarrow>
   entry_json list \<times> node_json list \<times> graph_edge_json list \<Rightarrow>
   entry_json list \<times> node_json list \<times> graph_edge_json list" where
  "serialise_loop md backlinks [] st = st"
| "serialise_loop md backlinks (en # ens) (entries_data, graph_nodes, graph_edges) =
     serialise_loop md backlinks ens
       (entries_data @ [entry_json_of md backlinks en],
        graph_nodes @ [node_of en],
        append_graph_edges en (entry_edges en) graph_edges)"

text \<open>
  The loop of lines 88-92: \<open>type_counts\<close> is a \<open>defaultdict(int)\<close>, \<open>all_tags\<close> a set.
\<close>

fun stats_loop :: "entry_json list \<Rightarrow> (string \<rightharpoonup> nat) \<times> string set \<Rightarrow> (string \<rightharpoonup> nat) \<times> string set" where
  "stats_loop [] st = st"
| "stats_loop (e # es) (type_counts, all_tags) =
     stats_loop es
       (type_counts(d_type e \<mapsto> (case type_counts (d_type e) of None \<Rightarrow> 0 | Some c \<Rightarrow> c) + 1),
        all_tags \<union> set (d_tags e))"

text \<open>Lines 27-30 and 38-106: from the parsed \<open>entries\<close> to the dict \<open>data\<close>.\<close>

definition build_data :: "(string \<Rightarrow> string) option \<Rightarrow> entry list \<Rightarrow> data_json" where
  "build_data md ens =
     (let backlinks = collect_backlinks ens Map.empty;
          (entries_data, graph_nodes, graph_edges) = serialise_loop md backlinks ens ([], [], []);
          (type_counts, all_tags) = stats_loop entries_data (Map.empty, {})
      in \<lparr>data_entries = entries_data,
          data_graph = \<lparr>g_nodes = graph_nodes, g_edges = graph_edges\<rparr>,
          data_stats = \<lparr>s_total = length entries_data, s_by_type = type_counts,
                        s_tags = sorted_list_of_set all_tags,
                        s_total_edges = length graph_edges\<rparr>\<rparr>)"

text \<open>
  Lines 32-36. \<open>parse_entry\<close> is defined in \<open>server/kb.py\<close>; it is a parameter here,
  and \<open>None\<close> is the falsy result that the guard \<open>if entry:\<close> drops.
\<close>

fun load_loop :: "(string \<Rightarrow> entry option) \<Rightarrow> string list \<Rightarrow> entry list \<Rightarrow> entry list" where
  "load_loop parse_entry [] ens = ens"
| "load_loop parse_entry (md_path # ps) ens =
     (case parse_entry md_path of
        None \<Rightarrow> load_loop parse_entry ps ens
      | Some en \<Rightarrow> load_loop parse_entry ps (ens @ [en]))"

text \<open>
  \<open>build\<close>: \<open>kb_dir_exists\<close> is \<open>kb_dir.exists()\<close>, \<open>glob\<close> the paths that
  \<open>kb_dir.glob("*.md")\<close> yields, in the order the file system gives them. All of them
  lie in the one directory \<open>knowledge/\<close>, so \<open>sorted\<close> compares their last components
  as strings. The result is what is written to the output file, \<open>None\<close> when \<open>build\<close>
  returns at line 25 without writing.
\<close>

definition build ::
  "bool \<Rightarrow> string list \<Rightarrow> (string \<Rightarrow> entry option) \<Rightarrow> (string \<Rightarrow> string) option \<Rightarrow> data_json option" where
  "build kb_dir_exists glob parse_entry md =
     (if \<not> kb_dir_exists then None
      else Some (build_data md (load_loop parse_entry (sort glob) [])))"

section \<open>Strings\<close>

text \<open>
  A Python \<open>str\<close> is represented by its UTF-8 form, one \<open>char\<close> per byte. The
  characters that the program searches for and splits on (\<open>/\<close>, \<open>.\<close>, \<open>?\<close>) are
  ASCII, and in UTF-8 a byte below 128 is never part of the form of another character,
  so searching and splitting go on the bytes as they go on the characters.
\<close>

definition nl :: string where
  "nl = [CHR 0x0A]"

definition sq :: string where
  "sq = [CHR 0x27]"

text \<open>The em dash of the f-strings of \<open>kb_read\<close> and \<open>cmd_read\<close>, in UTF-8.\<close>

definition em_dash :: string where
  "em_dash = [CHR 0xE2, CHR 0x80, CHR 0x94]"

text \<open>\<open>sep.join(xs)\<close>.\<close>

fun join :: "string \<Rightarrow> string list \<Rightarrow> string" where
  "join sep [] = []"
| "join sep [x] = x"
| "join sep (x # y # ys) = x @ sep @ join sep (y # ys)"

text \<open>An optional string in an f-string: \<open>str(None)\<close> is \<open>"None"\<close>.\<close>

fun fmt :: "string option \<Rightarrow> string" where
  "fmt None = ''None''"
| "fmt (Some s) = s"

text \<open>\<open>str(n)\<close> of a non-negative integer.\<close>

function str_nat :: "nat \<Rightarrow> string" where
  "str_nat n =
     (if n < 10 then [''0123456789'' ! n]
      else str_nat (n div 10) @ [''0123456789'' ! (n mod 10)])"
  by pat_completeness auto
termination
  by (relation "measure id") auto

declare str_nat.simps [simp del]

definition startswith :: "string \<Rightarrow> string \<Rightarrow> bool" where
  "startswith s p = (take (length p) s = p)"

text \<open>\<open>s.split(c)\<close> for a separator of one character: never the empty list.\<close>

fun split_on :: "char \<Rightarrow> string \<Rightarrow> string list" where
  "split_on c [] = [[]]"
| "split_on c (x # xs) =
     (if x = c then [] # split_on c xs
      else (case split_on c xs of [] \<Rightarrow> [[x]] | w # ws \<Rightarrow> (x # w) # ws))"

text \<open>\<open>s.split(c)[0]\<close>.\<close>

definition split_first :: "char \<Rightarrow> string \<Rightarrow> string" where
  "split_first c s = (case split_on c s of [] \<Rightarrow> [] | w # ws \<Rightarrow> w)"

text \<open>
  \<open>str.lower\<close>. On a string of ASCII characters the letters \<open>A\<close> to \<open>Z\<close> move to
  \<open>a\<close> to \<open>z\<close> and nothing else changes. For a string with a character outside ASCII
  the result is the one the Unicode database gives, \<open>unicode_lower\<close>, a parameter.
\<close>

definition lower_char :: "char \<Rightarrow> char" where
  "lower_char c =
     (case map_of (zip ''ABCDEFGHIJKLMNOPQRSTUVWXYZ'' ''abcdefghijklmnopqrstuvwxyz'') c of
        None \<Rightarrow> c | Some l \<Rightarrow> l)"

definition is_ascii :: "string \<Rightarrow> bool" where
  "is_ascii s = list_all (\<lambda>c. (of_char c :: nat) < 128) s"

definition str_lower :: "(string \<Rightarrow> string) \<Rightarrow> string \<Rightarrow> string" where
  "str_lower unicode_lower s = (if is_ascii s then map lower_char s else unicode_lower s)"

text \<open>
  The characters for which \<open>str.isspace\<close> holds, each in its UTF-8 form: U+0009 to
  U+000D, U+001C to U+0020, U+0085, U+00A0, U+1680, U+2000 to U+200A, U+2028, U+2029,
  U+202F, U+205F and U+3000.
\<close>

definition whitespace :: "string list" where
  "whitespace =
     [[CHR 0x09], [CHR 0x0A], [CHR 0x0B], [CHR 0x0C], [CHR 0x0D],
      [CHR 0x1C], [CHR 0x1D], [CHR 0x1E], [CHR 0x1F], [CHR 0x20],
      [CHR 0xC2, CHR 0x85], [CHR 0xC2, CHR 0xA0],
      [CHR 0xE1, CHR 0x9A, CHR 0x80],
      [CHR 0xE2, CHR 0x80, CHR 0x80], [CHR 0xE2, CHR 0x80, CHR 0x81],
      [CHR 0xE2, CHR 0x80, CHR 0x82], [CHR 0xE2, CHR 0x80, CHR 0x83],
      [CHR 0xE2, CHR 0x80, CHR 0x84], [CHR 0xE2, CHR 0x80, CHR 0x85],
      [CHR 0xE2, CHR 0x80, CHR 0x86], [CHR 0xE2, CHR 0x80, CHR 0x87],
      [CHR 0xE2, CHR 0x80, CHR 0x88], [CHR 0xE2, CHR 0x80, CHR 0x89],
      [CHR 0xE2, CHR 0x80, CHR 0x8A],
      [CHR 0xE2, CHR 0x80, CHR 0xA8], [CHR 0xE2, CHR 0x80, CHR 0xA9],
      [CHR 0xE2, CHR 0x80, CHR 0xAF], [CHR 0xE2, CHR 0x81, CHR 0x9F],
      [CHR 0xE3, CHR 0x80, CHR 0x80]]"

text \<open>
  The loop of \<open>str.strip\<close> at one end of the string: as long as the string begins with
  one of the characters of \<open>tbl\<close>, that character is dropped. A character of the Python
  string is the first one exactly when its UTF-8 form begins the bytes, and the last one
  exactly when its UTF-8 form ends them, since no UTF-8 form begins inside another.
\<close>

function strip_prefixes :: "string list \<Rightarrow> string \<Rightarrow> string" where
  "strip_prefixes tbl s =
     (case find (\<lambda>u. u \<noteq> [] \<and> startswith s u) tbl of
        None \<Rightarrow> s
      | Some u \<Rightarrow> strip_prefixes tbl (drop (length u) s))"
  by pat_completeness auto
termination
proof (relation "measure (\<lambda>(tbl, s). length s)")
  show "wf (measure (\<lambda>(tbl, s). length s))"
    by simp
next
  fix tbl :: "string list" and s u :: string
  assume "find (\<lambda>u. u \<noteq> [] \<and> startswith s u) tbl = Some u"
  then have "u \<noteq> []" and "take (length u) s = u"
    by (auto simp: find_Some_iff startswith_def)
  then have "s \<noteq> []"
    by auto
  with \<open>u \<noteq> []\<close> show "((tbl, drop (length u) s), (tbl, s)) \<in> measure (\<lambda>(tbl, s). length s)"
    by simp
qed

declare strip_prefixes.simps [simp del]

definition lstrip :: "string \<Rightarrow> string" where
  "lstrip s = strip_prefixes whitespace s"

definition rstrip :: "string \<Rightarrow> string" where
  "rstrip s = rev (strip_prefixes (map rev whitespace) (rev s))"

text \<open>\<open>s.strip()\<close>: the whitespace is removed from the left end, then from the right.\<close>

definition str_strip :: "string \<Rightarrow> string" where
  "str_strip s = rstrip (lstrip s)"

text \<open>A string that is empty or has whitespace characters only.\<close>

inductive blank :: "string \<Rightarrow> bool" where
  empty: "blank []"
| space: "u \<in> set whitespace \<Longrightarrow> blank s \<Longrightarrow> blank (u @ s)"

definition endswith :: "string \<Rightarrow> string \<Rightarrow> bool" where
  "endswith s p = (length p \<le> length s \<and> drop (length s - length p) s = p)"

text \<open>
  \<open>PurePosixPath(p).name\<close>: the last component of \<open>p\<close>, where the components are the
  pieces between slashes that are neither empty nor \<open>.\<close>; the empty string when there is
  none. \<open>Path(p).name\<close> is the same function on a POSIX host.
\<close>

definition PurePosixPath_name :: "string \<Rightarrow> string" where
  "PurePosixPath_name p =
     (case filter (\<lambda>x. x \<noteq> [] \<and> x \<noteq> ''.'') (split_on CHR ''/'' p) of
        [] \<Rightarrow> []
      | x # xs \<Rightarrow> last (x # xs))"

text \<open>
  \<open>PurePosixPath(p).suffix\<close> (CPython up to 3.13): with \<open>i = name.rfind('.')\<close>, the
  slice \<open>name[i:]\<close> when \<open>0 < i < len(name) - 1\<close>, the empty string otherwise.
\<close>

definition PurePosixPath_suffix :: "string \<Rightarrow> string" where
  "PurePosixPath_suffix p =
     (let name = PurePosixPath_name p
      in if CHR ''.'' \<notin> set name then []
         else let i = length name - 1 - length (takeWhile (\<lambda>c. c \<noteq> CHR ''.'') (rev name))
              in if 0 < i \<and> i < length name - 1 then drop i name else [])"

section \<open>Configuration (server/config.py) and \<open>_make_kb\<close> of server/cli.py\<close>

text \<open>
  The class \<open>Config\<close> is declared in \<open>server/config.py\<close>; the records carry the
  attributes that \<open>tools.py\<close> and \<open>cli.py\<close> read. The two secrets come from the
  environment and may be \<open>None\<close>.
\<close>

record github_config =
  owner :: string
  repo :: string
  default_branch :: string

record knowledge_config =
  assets_dir :: string

record sync_config =
  auto_pull :: bool

record config =
  memex_git_token :: "string option"
  cursor_api_key :: "string option"
  github :: github_config
  knowledge :: knowledge_config
  sync :: sync_config

text \<open>
  Lines 15-16 of \<open>_make_kb\<close>: \<open>loaded\<close> is what \<open>load_config()\<close> returned, and the
  assignment \<open>config.sync.auto_pull = False\<close> is an update of the record.
\<close>

definition make_kb_config :: "config \<Rightarrow> config" where
  "make_kb_config loaded = loaded\<lparr>sync := (sync loaded)\<lparr>auto_pull := False\<rparr>\<rparr>"

text \<open>\<open>_make_kb\<close>, with the constructor \<open>KnowledgeBase\<close> of \<open>server/kb.py\<close> as a parameter.\<close>

definition make_kb :: "config \<Rightarrow> (config \<Rightarrow> 'kb) \<Rightarrow> 'kb" where
  "make_kb loaded KnowledgeBase = KnowledgeBase (make_kb_config loaded)"

text \<open>
  Modelled from the spec: the class \<open>KnowledgeBase\<close> of \<open>server/kb.py\<close> is missing from
  the sources. Section 4.4 of the specification (Sync Coordinator): the index is built
  from the local documents present at construction; before a read, when the flag for
  automatic refresh is on and the fetch hook delivers a newer document set, the index is
  rebuilt from it; when the fetch fails the last snapshot is served; when the flag is
  off the index is never refreshed. The index is represented by the document set it was
  built from.
\<close>

record 'd knowledge_base =
  kb_config :: config
  kb_index :: 'd

definition KnowledgeBase_spec :: "'d \<Rightarrow> config \<Rightarrow> 'd knowledge_base" where
  "KnowledgeBase_spec local_docs cfg = \<lparr>kb_config = cfg, kb_index = local_docs\<rparr>"

definition refresh_before_read :: "'d option \<Rightarrow> 'd knowledge_base \<Rightarrow> 'd knowledge_base" where
  "refresh_before_read fetched kb =
     (if auto_pull (sync (kb_config kb))
      then (case fetched of None \<Rightarrow> kb | Some docs \<Rightarrow> kb\<lparr>kb_index := docs\<rparr>)
      else kb)"

text \<open>
  The methods of a \<open>KnowledgeBase\<close> that \<open>tools.py\<close> and \<open>cli.py\<close> call, as
  parameters: what each returns for a given knowledge base. \<open>type_counts\<close> and
  \<open>tag_counts\<close> return dicts, given as their items in iteration order.
\<close>

record 'kb kb_api =
  read_entry :: "'kb \<Rightarrow> string \<Rightarrow> entry option"
  get_backlinks :: "'kb \<Rightarrow> string \<Rightarrow> backlink list"
  all_entries :: "'kb \<Rightarrow> entry list"
  entry_count :: "'kb \<Rightarrow> nat"
  type_counts :: "'kb \<Rightarrow> (string \<times> nat) list"
  tag_counts :: "'kb \<Rightarrow> (string \<times> nat) list"

section \<open>The outside world\<close>

text \<open>
  The exceptions that leave a function of the program: \<open>GitHubClientError\<close> with its
  message; the \<open>httpx.HTTPError\<close> of a request that gets no answer, with its message;
  the \<open>ValueError\<close> of \<open>resp.json()\<close> on a body that is not JSON; and the
  \<open>KeyError\<close> (with the key), \<open>TypeError\<close> and \<open>AttributeError\<close> of reading a
  decoded body that does not have the expected shape.
\<close>

datatype exn =
    GitHubClientError string
  | HTTPError string
  | ValueError
  | KeyError string
  | TypeError
  | AttributeError

text \<open>
  What \<open>resp.json()\<close> returns: \<open>None\<close>, a \<open>bool\<close>, a number (an \<open>int\<close>; the API
  sends no other), a \<open>str\<close>, a \<open>list\<close> or a \<open>dict\<close>, the latter as its items, the
  keys distinct.
\<close>

datatype json =
    JNull
  | JBool bool
  | JNum int
  | JStr string
  | JArr "json list"
  | JObj "(string \<times> json) list"

text \<open>Python truthiness of such a value.\<close>

fun json_truthy :: "json \<Rightarrow> bool" where
  "json_truthy JNull = False"
| "json_truthy (JBool b) = b"
| "json_truthy (JNum n) = (n \<noteq> 0)"
| "json_truthy (JStr s) = (s \<noteq> [])"
| "json_truthy (JArr xs) = (xs \<noteq> [])"
| "json_truthy (JObj kvs) = (kvs \<noteq> [])"

text \<open>
  \<open>v[k]\<close> for a key \<open>k\<close> that is a \<open>str\<close>: the value under \<open>k\<close> of a \<open>dict\<close>, a
  \<open>KeyError\<close> when the \<open>dict\<close> has no such key, a \<open>TypeError\<close> for any other value.
\<close>

fun getitem :: "json \<Rightarrow> string \<Rightarrow> exn + json" where
  "getitem (JObj kvs) k = (case map_of kvs k of None \<Rightarrow> Inl (KeyError k) | Some v \<Rightarrow> Inr v)"
| "getitem v k = Inl TypeError"

text \<open>
  \<open>v.get(k)\<close>: the value under \<open>k\<close> of a \<open>dict\<close>, \<open>None\<close> when it has no such key;
  only a \<open>dict\<close> has the method.
\<close>

fun dict_get :: "json \<Rightarrow> string \<Rightarrow> exn + json" where
  "dict_get (JObj kvs) k = (case map_of kvs k of None \<Rightarrow> Inr JNull | Some v \<Rightarrow> Inr v)"
| "dict_get v k = Inl AttributeError"

text \<open>
  What the program does to the network is a log of effects, in the order they happen:
  the call \<open>httpx.get(source)\<close>, the requests of \<open>GitHubClient\<close> to the GitHub API
  (a \<open>GET\<close> with its \<open>ref\<close> parameter, a \<open>POST\<close> with the \<open>ref\<close> and \<open>sha\<close> of its
  body, a \<open>PUT\<close> with its payload), and the call \<open>CursorClient.launch_agent\<close>. A
  function that performs effects takes the log and returns it extended.
\<close>

record payload =
  p_message :: string
  p_content :: string
  p_branch :: string
  p_sha :: "json option"

datatype effect =
    HttpGet string
  | ApiGet string "string option"
  | ApiPost string string json
  | ApiPut string payload
  | LaunchAgent string string string

text \<open>
  A response of the GitHub API, as far as \<open>github_client.py\<close> reads it: the status
  code, \<open>resp.text\<close>, and what \<open>resp.json()\<close> returns, \<open>None\<close> when the body is not
  JSON and \<open>resp.json()\<close> raises.
\<close>

record response =
  resp_status :: nat
  resp_text :: string
  resp_json :: "json option"

text \<open>
  The answers of the outside world, each depending on the effects so far:
  \<open>httpx_get\<close> is \<open>Inr resp.content\<close>, or \<open>Inl\<close> of \<open>str(e)\<close> for the \<open>httpx.HTTPError\<close>
  that \<open>httpx.get\<close> or \<open>raise_for_status\<close> raises; \<open>path_read\<close> is the content of a
  local file, \<open>None\<close> when \<open>p.exists()\<close> is false; \<open>api\<close> is the response to a request
  of the client, or \<open>Inl\<close> of \<open>str(e)\<close> for the \<open>httpx.HTTPError\<close> raised in its place;
  \<open>b64encode\<close> is \<open>base64.b64encode\<close>; \<open>cursor_launch\<close> is the agent's id and URL, or
  \<open>Inl\<close> of \<open>str(e)\<close> for a \<open>CursorClientError\<close> (\<open>server/cursor_client.py\<close>);
  \<open>build_prompt\<close> is the function of \<open>server/prompt.py\<close> for the knowledge base at hand;
  \<open>unicode_lower\<close> is \<open>str.lower\<close> on a string with characters outside ASCII.
\<close>

record env =
  httpx_get :: "effect list \<Rightarrow> string \<Rightarrow> string + string"
  path_read :: "string \<Rightarrow> string option"
  api :: "effect list \<Rightarrow> effect \<Rightarrow> string + response"
  b64encode :: "string \<Rightarrow> string"
  cursor_launch :: "effect list \<Rightarrow> string \<Rightarrow> string \<Rightarrow> string \<Rightarrow> string + string \<times> string"
  build_prompt :: "string \<Rightarrow> json list \<Rightarrow> string"
  unicode_lower :: "string \<Rightarrow> string"

section \<open>\<open>GitHubClient\<close> of server/github_client.py\<close>

definition API_BASE :: string where
  "API_BASE = ''https://api.github.com''"

definition IMAGE_EXTENSIONS :: "string set" where
  "IMAGE_EXTENSIONS = {''.png'', ''.jpg'', ''.jpeg'', ''.gif'', ''.webp'', ''.svg''}"

record upload_result =
  ur_path :: string
  ur_branch :: string
  ur_sha :: json

record github_client =
  gc_token :: string
  gc_owner :: string
  gc_repo :: string

definition repo_prefix :: "github_client \<Rightarrow> string" where
  "repo_prefix gh = API_BASE @ ''/repos/'' @ gc_owner gh @ ''/'' @ gc_repo gh"

text \<open>
  One request of \<open>self._http\<close>: the response or the exception raised in its place, and
  the log with the request added.
\<close>

definition request :: "env \<Rightarrow> effect \<Rightarrow> effect list \<Rightarrow> (exn + response) \<times> effect list" where
  "request env e w =
     (case api env w e of
        Inl msg \<Rightarrow> (Inl (HTTPError msg), w @ [e])
      | Inr resp \<Rightarrow> (Inr resp, w @ [e]))"

text \<open>\<open>resp.json()[k1][k2]\<close>.\<close>

definition json_path2 :: "response \<Rightarrow> string \<Rightarrow> string \<Rightarrow> exn + json" where
  "json_path2 resp k1 k2 =
     (case resp_json resp of
        None \<Rightarrow> Inl ValueError
      | Some data \<Rightarrow>
          (case getitem data k1 of
             Inl e \<Rightarrow> Inl e
           | Inr inner \<Rightarrow> getitem inner k2))"

definition ensure_branch ::
  "env \<Rightarrow> github_client \<Rightarrow> string \<Rightarrow> string \<Rightarrow> effect list \<Rightarrow> (exn + json) \<times> effect list" where
  "ensure_branch env gh branch base w =
     (case request env (ApiGet (repo_prefix gh @ ''/git/ref/heads/'' @ branch) None) w of
        (Inl e, w1) \<Rightarrow> (Inl e, w1)
      | (Inr resp, w1) \<Rightarrow>
          if resp_status resp = 200 then (json_path2 resp ''object'' ''sha'', w1)
          else
            (case request env (ApiGet (repo_prefix gh @ ''/git/ref/heads/'' @ base) None) w1 of
               (Inl e, w2) \<Rightarrow> (Inl e, w2)
             | (Inr base_resp, w2) \<Rightarrow>
                 if resp_status base_resp \<noteq> 200
                 then (Inl (GitHubClientError
                             (''Base branch '' @ sq @ base @ sq @ '' not found: '' @
                              str_nat (resp_status base_resp))), w2)
                 else
                   (case json_path2 base_resp ''object'' ''sha'' of
                      Inl e \<Rightarrow> (Inl e, w2)
                    | Inr base_sha \<Rightarrow>
                        (case request env
                                (ApiPost (repo_prefix gh @ ''/git/refs'')
                                   (''refs/heads/'' @ branch) base_sha) w2 of
                           (Inl e, w3) \<Rightarrow> (Inl e, w3)
                         | (Inr create_resp, w3) \<Rightarrow>
                             if resp_status create_resp \<noteq> 200 \<and> resp_status create_resp \<noteq> 201
                             then (Inl (GitHubClientError
                                         (''Failed to create branch '' @ sq @ branch @ sq @
                                          '': '' @ str_nat (resp_status create_resp) @ '' '' @
                                          resp_text create_resp)), w3)
                             else (Inr base_sha, w3)))))"

text \<open>
  \<open>_get_file_sha\<close>: \<open>resp.json().get("sha")\<close> on a 200, \<open>None\<close> otherwise; \<open>JNull\<close>
  is Python's \<open>None\<close>.
\<close>

definition get_file_sha ::
  "env \<Rightarrow> github_client \<Rightarrow> string \<Rightarrow> string \<Rightarrow> effect list \<Rightarrow> (exn + json) \<times> effect list" where
  "get_file_sha env gh repo_path branch w =
     (case request env (ApiGet (repo_prefix gh @ ''/contents/'' @ repo_path) (Some branch)) w of
        (Inl e, w1) \<Rightarrow> (Inl e, w1)
      | (Inr resp, w1) \<Rightarrow>
          if resp_status resp = 200
          then (case resp_json resp of
                  None \<Rightarrow> (Inl ValueError, w1)
                | Some data \<Rightarrow> (dict_get data ''sha'', w1))
          else (Inr JNull, w1))"

definition upload_file ::
  "env \<Rightarrow> github_client \<Rightarrow> string \<Rightarrow> string \<Rightarrow> string \<Rightarrow> string \<Rightarrow> effect list \<Rightarrow>
   (exn + upload_result) \<times> effect list" where
  "upload_file env gh repo_path content branch message w =
     (let message = (if message = [] then ''upload '' @ PurePosixPath_name repo_path else message);
          encoded = b64encode env content
      in case get_file_sha env gh repo_path branch w of
           (Inl e, w1) \<Rightarrow> (Inl e, w1)
         | (Inr existing_sha, w1) \<Rightarrow>
             let pl = \<lparr>p_message = message, p_content = encoded, p_branch = branch,
                       p_sha = (if json_truthy existing_sha then Some existing_sha else None)\<rparr>
             in (case request env (ApiPut (repo_prefix gh @ ''/contents/'' @ repo_path) pl) w1 of
                   (Inl e, w2) \<Rightarrow> (Inl e, w2)
                 | (Inr resp, w2) \<Rightarrow>
                     if resp_status resp \<noteq> 200 \<and> resp_status resp \<noteq> 201
                     then (Inl (GitHubClientError
                                 (''Failed to upload '' @ sq @ repo_path @ sq @ '': '' @
                                  str_nat (resp_status resp) @ '' '' @ resp_text resp)), w2)
                     else (case json_path2 resp ''content'' ''sha'' of
                             Inl e \<Rightarrow> (Inl e, w2)
                           | Inr sha \<Rightarrow>
                               (Inr \<lparr>ur_path = repo_path, ur_branch = branch, ur_sha = sha\<rparr>,
                                w2))))"

text \<open>
  The comprehension \<open>[item["path"] for item in data if item["type"] == "file"]\<close> of
  \<open>list_directory\<close>, item by item: the condition first, then the element.
\<close>

fun files_of :: "json list \<Rightarrow> exn + json list" where
  "files_of [] = Inr []"
| "files_of (item # items) =
     (case getitem item ''type'' of
        Inl e \<Rightarrow> Inl e
      | Inr t \<Rightarrow>
          if t = JStr ''file''
          then (case getitem item ''path'' of
                  Inl e \<Rightarrow> Inl e
                | Inr p \<Rightarrow>
                    (case files_of items of
                       Inl e \<Rightarrow> Inl e
                     | Inr ps \<Rightarrow> Inr (p # ps)))
          else files_of items)"

definition list_directory ::
  "env \<Rightarrow> github_client \<Rightarrow> string \<Rightarrow> string \<Rightarrow> effect list \<Rightarrow> (exn + json list) \<times> effect list" where
  "list_directory env gh dir_path branch w =
     (case request env (ApiGet (repo_prefix gh @ ''/contents/'' @ dir_path) (Some branch)) w of
        (Inl e, w1) \<Rightarrow> (Inl e, w1)
      | (Inr resp, w1) \<Rightarrow>
          if resp_status resp = 404 then (Inr [], w1)
          else if resp_status resp \<noteq> 200
          then (Inl (GitHubClientError
                      (''Failed to list '' @ sq @ dir_path @ sq @ '': '' @
                       str_nat (resp_status resp))), w1)
          else (case resp_json resp of
                  None \<Rightarrow> (Inl ValueError, w1)
                | Some (JArr items) \<Rightarrow> (files_of items, w1)
                | Some data \<Rightarrow> (Inr [], w1)))"

section \<open>The tools of server/tools.py\<close>

subsection \<open>\<open>kb_read\<close>\<close>

definition edge_line :: "edge \<Rightarrow> string" where
  "edge_line e =
     (let desc = (if truthy (edge_description e)
                  then '' '' @ em_dash @ '' '' @ fmt (edge_description e) else [])
      in ''  ['' @ edge_label e @ ''] '' @ edge_path e @ desc)"

definition source_line :: "source \<Rightarrow> string" where
  "source_line s =
     (let title = (if truthy (source_title s) then '' ('' @ fmt (source_title s) @ '')'' else [])
      in ''  '' @ source_url s @ title)"

definition backlink_line :: "backlink \<Rightarrow> string" where
  "backlink_line bl =
     (let desc = (if truthy (bl_description bl)
                  then '' '' @ em_dash @ '' '' @ fmt (bl_description bl) else [])
      in ''  ['' @ bl_label bl @ ''] '' @ bl_path bl @ '' ('' @ bl_title bl @ '')'' @ desc)"

text \<open>The three \<open>for\<close> loops of lines 87-89, 92-94 and 97-99, appending to \<open>parts\<close>.\<close>

fun append_edge_lines :: "edge list \<Rightarrow> string list \<Rightarrow> string list" where
  "append_edge_lines [] parts = parts"
| "append_edge_lines (e # es) parts = append_edge_lines es (parts @ [edge_line e])"

fun append_source_lines :: "source list \<Rightarrow> string list \<Rightarrow> string list" where
  "append_source_lines [] parts = parts"
| "append_source_lines (s # ss) parts = append_source_lines ss (parts @ [source_line s])"

fun append_backlink_lines :: "backlink list \<Rightarrow> string list \<Rightarrow> string list" where
  "append_backlink_lines [] parts = parts"
| "append_backlink_lines (b # bs) parts = append_backlink_lines bs (parts @ [backlink_line b])"

text \<open>Lines 75-100: the list \<open>parts\<close> for an entry that was found.\<close>

definition kb_read_parts :: "entry \<Rightarrow> backlink list \<Rightarrow> string list" where
  "kb_read_parts en backlinks =
     (let parts = [''# '' @ entry_title en,
                   ''type: '' @ entry_type en,
                   ''summary: '' @ entry_summary en,
                   ''tags: '' @ join '', '' (entry_tags en),
                   ''created: '' @ entry_created en];
          parts = (if truthy (entry_updated en)
                   then parts @ [''updated: '' @ fmt (entry_updated en)] else parts);
          parts = (if entry_edges en \<noteq> []
                   then append_edge_lines (entry_edges en) (parts @ [nl @ ''edges:'']) else parts);
          parts = (if entry_sources en \<noteq> []
                   then append_source_lines (entry_sources en) (parts @ [nl @ ''sources:''])
                   else parts);
          parts = (if backlinks \<noteq> []
                   then append_backlink_lines backlinks (parts @ [nl @ ''backlinks:'']) else parts)
      in parts @ [nl @ ''---'' @ nl @ entry_body en])"

definition kb_read :: "'kb kb_api \<Rightarrow> 'kb \<Rightarrow> string \<Rightarrow> string" where
  "kb_read kbm kb path =
     (case read_entry kbm kb path of
        None \<Rightarrow> ''Entry not found: '' @ path
      | Some en \<Rightarrow> join nl (kb_read_parts en (get_backlinks kbm kb path)))"

subsection \<open>\<open>kb_upload\<close>\<close>

text \<open>Lines 121-128, the same in \<open>cmd_upload\<close> (lines 120-127).\<close>

definition upload_is_url :: "string \<Rightarrow> bool" where
  "upload_is_url source = (startswith source ''http://'' \<or> startswith source ''https://'')"

definition upload_filename :: "string \<Rightarrow> string" where
  "upload_filename source =
     (if upload_is_url source then PurePosixPath_name (split_first CHR ''?'' source)
      else PurePosixPath_name source)"

definition upload_ext :: "env \<Rightarrow> string \<Rightarrow> string" where
  "upload_ext env source =
     str_lower (unicode_lower env) (PurePosixPath_suffix (upload_filename source))"

definition client_of :: "config \<Rightarrow> github_client" where
  "client_of config =
     \<lparr>gc_token = fmt (memex_git_token config), gc_owner = owner (github config),
      gc_repo = repo (github config)\<rparr>"

text \<open>
  The handler \<open>except GitHubClientError as e: return f"Error: {e}"\<close> of line 153;
  another exception leaves \<open>kb_upload\<close>.
\<close>

fun kb_upload_except :: "exn \<Rightarrow> exn + string" where
  "kb_upload_except (GitHubClientError msg) = Inr (''Error: '' @ msg)"
| "kb_upload_except e = Inl e"

text \<open>Lines 145-162.\<close>

definition kb_upload_push ::
  "config \<Rightarrow> env \<Rightarrow> string \<Rightarrow> string \<Rightarrow> string option \<Rightarrow> effect list \<Rightarrow>
   (exn + string) \<times> effect list" where
  "kb_upload_push config env filename content branch w =
     (let target_branch = (if truthy branch then fmt branch else default_branch (github config));
          repo_path = assets_dir (knowledge config) @ ''/'' @ filename;
          gh = client_of config;
          (ensured, w1) = (if truthy branch
                           then ensure_branch env gh (fmt branch) (default_branch (github config)) w
                           else (Inr JNull, w))
      in case ensured of
           Inl e \<Rightarrow> (kb_upload_except e, w1)
         | Inr _ \<Rightarrow>
             (case upload_file env gh repo_path content target_branch [] w1 of
                (Inl e, w2) \<Rightarrow> (kb_upload_except e, w2)
              | (Inr result, w2) \<Rightarrow>
                  (Inr (''Uploaded: /'' @ ur_path result @ nl @
                        ''Branch: '' @ ur_branch result @ nl @
                        ''Use in entries: ![alt](/'' @ ur_path result @ '')''), w2)))"

definition kb_upload ::
  "config \<Rightarrow> env \<Rightarrow> string \<Rightarrow> string option \<Rightarrow> effect list \<Rightarrow> (exn + string) \<times> effect list" where
  "kb_upload config env source branch w =
     (if \<not> truthy (memex_git_token config)
      then (Inr ''Error: MEMEX_GIT_TOKEN not configured'', w)
      else if owner (github config) = [] \<or> repo (github config) = []
      then (Inr ''Error: GitHub repository not configured in config.yaml'', w)
      else
        let is_url = upload_is_url source;
            filename = upload_filename source;
            ext = upload_ext env source
        in if ext \<notin> IMAGE_EXTENSIONS
           then (Inr (''Error: Unsupported image type '' @ sq @ ext @ sq @ ''. Supported: '' @
                      join '', '' (sorted_list_of_set IMAGE_EXTENSIONS)), w)
           else if is_url
           then (case httpx_get env w source of
                   Inl e \<Rightarrow> (Inr (''Error: Failed to fetch URL: '' @ e), w @ [HttpGet source])
                 | Inr content \<Rightarrow>
                     kb_upload_push config env filename content branch (w @ [HttpGet source]))
           else (case path_read env source of
                   None \<Rightarrow> (Inr (''Error: File not found: '' @ source), w)
                 | Some content \<Rightarrow> kb_upload_push config env filename content branch w))"

subsection \<open>\<open>kb_add\<close>\<close>

text \<open>
  Lines 184-194: the listing of the assets directory, \<open>[]\<close> when it fails with a
  \<open>GitHubClientError\<close>; another exception leaves \<open>kb_add\<close>.
\<close>

definition kb_add_images ::
  "config \<Rightarrow> env \<Rightarrow> string \<Rightarrow> effect list \<Rightarrow> (exn + json list) \<times> effect list" where
  "kb_add_images config env target_branch w =
     (if target_branch \<noteq> [] \<and> truthy (memex_git_token config)
      then (case list_directory env (client_of config) (assets_dir (knowledge config))
                   target_branch w of
              (Inl (GitHubClientError msg), w1) \<Rightarrow> (Inr [], w1)
            | (Inl e, w1) \<Rightarrow> (Inl e, w1)
            | (Inr images, w1) \<Rightarrow> (Inr images, w1))
      else (Inr [], w))"

definition kb_add ::
  "config \<Rightarrow> env \<Rightarrow> string \<Rightarrow> string option \<Rightarrow> effect list \<Rightarrow> (exn + string) \<times> effect list" where
  "kb_add config env summary branch w =
     (if summary = [] \<or> str_strip summary = []
      then (Inr ''Error: Summary cannot be empty'', w)
      else if \<not> truthy (cursor_api_key config)
      then (Inr ''Error: CURSOR_API_KEY not configured'', w)
      else if owner (github config) = [] \<or> repo (github config) = []
      then (Inr ''Error: GitHub repository not configured in config.yaml'', w)
      else
        let target_branch = (if truthy branch then fmt branch else default_branch (github config))
        in case kb_add_images config env target_branch w of
             (Inl e, w1) \<Rightarrow> (Inl e, w1)
           | (Inr images, w1) \<Rightarrow>
               let prompt_text = build_prompt env (str_strip summary) images;
                   repo_url = ''https://github.com/'' @ owner (github config) @ ''/'' @
                              repo (github config);
                   w2 = w1 @ [LaunchAgent prompt_text repo_url target_branch]
               in (case cursor_launch env w1 prompt_text repo_url target_branch of
                     Inl e \<Rightarrow> (Inr (''Error: '' @ e), w2)
                   | Inr (agent_id, agent_url) \<Rightarrow>
                       (Inr (''Cloud agent launched.'' @ nl @
                             ''Agent ID: '' @ agent_id @ nl @
                             ''Dashboard: '' @ agent_url @ nl @
                             ''Use kb_status with this agent_id to check progress.''), w2)))"

section \<open>The commands of server/cli.py\<close>

text \<open>
  What a command leaves behind: the lines printed to standard output and to standard
  error, one string per call of \<open>print\<close>, and how it ended.
\<close>

record printed =
  stdout :: "string list"
  stderr :: "string list"

datatype ending = Returned | Exit nat | Raised exn

subsection \<open>\<open>cmd_read\<close>\<close>

fun print_edge_lines :: "edge list \<Rightarrow> string list \<Rightarrow> string list" where
  "print_edge_lines [] out = out"
| "print_edge_lines (e # es) out = print_edge_lines es (out @ [edge_line e])"

fun print_source_lines :: "source list \<Rightarrow> string list \<Rightarrow> string list" where
  "print_source_lines [] out = out"
| "print_source_lines (s # ss) out = print_source_lines ss (out @ [source_line s])"

fun print_backlink_lines :: "backlink list \<Rightarrow> string list \<Rightarrow> string list" where
  "print_backlink_lines [] out = out"
| "print_backlink_lines (b # bs) out = print_backlink_lines bs (out @ [backlink_line b])"

definition cmd_read :: "config \<Rightarrow> (config \<Rightarrow> 'kb) \<Rightarrow> 'kb kb_api \<Rightarrow> string \<Rightarrow> printed \<times> ending" where
  "cmd_read loaded KnowledgeBase kbm path =
     (let kb = make_kb loaded KnowledgeBase
      in case read_entry kbm kb path of
           None \<Rightarrow> (\<lparr>stdout = [], stderr = [''Entry not found: '' @ path]\<rparr>, Exit 1)
         | Some en \<Rightarrow>
             let backlinks = get_backlinks kbm kb path;
                 out = [''# '' @ entry_title en,
                        ''type: '' @ entry_type en,
                        ''summary: '' @ entry_summary en,
                        ''tags: '' @ join '', '' (entry_tags en),
                        ''created: '' @ entry_created en];
                 out = (if truthy (entry_updated en)
                        then out @ [''updated: '' @ fmt (entry_updated en)] else out);
                 out = (if entry_edges en \<noteq> []
                        then print_edge_lines (entry_edges en) (out @ [nl @ ''edges:'']) else out);
                 out = (if entry_sources en \<noteq> []
                        then print_source_lines (entry_sources en) (out @ [nl @ ''sources:''])
                        else out);
                 out = (if backlinks \<noteq> []
                        then print_backlink_lines backlinks (out @ [nl @ ''backlinks:''])
                        else out)
             in (\<lparr>stdout = out @ [nl @ ''---'' @ nl @ entry_body en], stderr = []\<rparr>, Returned))"

subsection \<open>\<open>cmd_stats\<close>\<close>

text \<open>Line 92: \<open>sum(len(e.edges) for e in kb.all_entries())\<close>.\<close>

definition sum_edges :: "entry list \<Rightarrow> nat" where
  "sum_edges ens = sum_list (map (\<lambda>e. length (entry_edges e)) ens)"

text \<open>
  \<open>sorted(d.items(), key=lambda x: x[1], reverse=True)\<close>: a stable sort, descending,
  items with equal counts staying in the order of the dict.
\<close>

definition sorted_by_count_desc :: "(string \<times> nat) list \<Rightarrow> (string \<times> nat) list" where
  "sorted_by_count_desc items = rev (sort_key snd (rev items))"

definition count_line :: "string \<times> nat \<Rightarrow> string" where
  "count_line tc = ''  '' @ fst tc @ '': '' @ str_nat (snd tc)"

definition cmd_stats :: "config \<Rightarrow> (config \<Rightarrow> 'kb) \<Rightarrow> 'kb kb_api \<Rightarrow> printed \<times> ending" where
  "cmd_stats loaded KnowledgeBase kbm =
     (let kb = make_kb loaded KnowledgeBase;
          tc = type_counts kbm kb;
          tg = tag_counts kbm kb;
          total = entry_count kbm kb;
          total_edges = sum_edges (all_entries kbm kb)
      in (\<lparr>stdout = [''Entries: '' @ str_nat total, ''Edges: '' @ str_nat total_edges,
                      nl @ ''By type:''] @
                     map count_line (sorted_by_count_desc tc) @
                     [nl @ ''By tag:''] @
                     map count_line (sorted_by_count_desc tg),
           stderr = []\<rparr>, Returned))"

subsection \<open>\<open>cmd_upload\<close>\<close>

text \<open>
  The loop of lines 119-152 over \<open>args.sources\<close>. Its state is the log of effects and
  the output so far; it ends with \<open>None\<close> when every source was handled, and with the
  exception that \<open>upload_file\<close> raised otherwise.
\<close>

fun cmd_upload_loop ::
  "config \<Rightarrow> env \<Rightarrow> github_client \<Rightarrow> string \<Rightarrow> string list \<Rightarrow> effect list \<times> printed \<Rightarrow>
   exn option \<times> effect list \<times> printed" where
  "cmd_upload_loop config env gh branch [] st = (None, st)"
| "cmd_upload_loop config env gh branch (source # rest) (w, out) =
     (let is_url = upload_is_url source;
          filename = upload_filename source;
          ext = upload_ext env source
      in if ext \<notin> IMAGE_EXTENSIONS
         then cmd_upload_loop config env gh branch rest
                (w, out\<lparr>stderr := stderr out @
                   [''Skipping '' @ filename @ '': unsupported type '' @ sq @ ext @ sq]\<rparr>)
         else
           let (fetched, w1, out1) =
                 (if is_url
                  then (case httpx_get env w source of
                          Inl e \<Rightarrow> (None, w @ [HttpGet source],
                                    out\<lparr>stderr := stderr out @
                                      [''Error fetching '' @ source @ '': '' @ e]\<rparr>)
                        | Inr content \<Rightarrow> (Some content, w @ [HttpGet source], out))
                  else (case path_read env source of
                          None \<Rightarrow> (None, w,
                                   out\<lparr>stderr := stderr out @ [''File not found: '' @ source]\<rparr>)
                        | Some content \<Rightarrow> (Some content, w, out)))
           in case fetched of
                None \<Rightarrow> cmd_upload_loop config env gh branch rest (w1, out1)
              | Some content \<Rightarrow>
                  (case upload_file env gh (assets_dir (knowledge config) @ ''/'' @ filename)
                          content branch [] w1 of
                     (Inl e, w2) \<Rightarrow> (Some e, w2, out1)
                   | (Inr result, w2) \<Rightarrow>
                       cmd_upload_loop config env gh branch rest
                         (w2, out1\<lparr>stdout := stdout out1 @
                            [''Uploaded: /'' @ ur_path result @ ''  (branch: '' @
                             ur_branch result @ '')'']\<rparr>)))"

text \<open>The handler of lines 153-155; another exception leaves the command.\<close>

fun cmd_upload_except :: "exn \<Rightarrow> effect list \<times> printed \<Rightarrow> (effect list \<times> printed) \<times> ending" where
  "cmd_upload_except (GitHubClientError msg) (w, out) =
     ((w, out\<lparr>stderr := stderr out @ [''Error: '' @ msg]\<rparr>), Exit 1)"
| "cmd_upload_except e (w, out) = ((w, out), Raised e)"

definition cmd_upload ::
  "config \<Rightarrow> env \<Rightarrow> string list \<Rightarrow> string option \<Rightarrow> effect list \<Rightarrow>
   (effect list \<times> printed) \<times> ending" where
  "cmd_upload config env sources args_branch w =
     (if \<not> truthy (memex_git_token config)
      then ((w, \<lparr>stdout = [], stderr = [''Error: MEMEX_GIT_TOKEN not configured'']\<rparr>), Exit 1)
      else if owner (github config) = [] \<or> repo (github config) = []
      then ((w, \<lparr>stdout = [],
                 stderr = [''Error: GitHub repository not configured in config.yaml'']\<rparr>), Exit 1)
      else
        let branch = (if truthy args_branch then fmt args_branch
                      else default_branch (github config));
            gh = client_of config;
            out = \<lparr>stdout = [], stderr = []\<rparr>;
            (ensured, w1) = (if truthy args_branch
                             then ensure_branch env gh branch (default_branch (github config)) w
                             else (Inr JNull, w))
        in case ensured of
             Inl e \<Rightarrow> cmd_upload_except e (w1, out)
           | Inr _ \<Rightarrow>
               (case cmd_upload_loop config env gh branch sources (w1, out) of
                  (None, st) \<Rightarrow> (st, Returned)
                | (Some e, st) \<Rightarrow> cmd_upload_except e st))"

section \<open>A small knowledge base\<close>

text \<open>
  Three documents in \<open>knowledge/\<close>: \<open>a.md\<close> links to a document that does not exist
  and to \<open>b.md\<close>, \<open>b.md\<close> links back to \<open>a.md\<close>, and \<open>broken.md\<close> does not parse.
  A further entry, \<open>c.md\<close>, links to \<open>b.md\<close>, to \<open>a.md\<close> and to \<open>b.md\<close> once more.
\<close>

definition to_missing :: edge where
  "to_missing =
     \<lparr>edge_path = ''/knowledge/missing.md'', edge_label = ''supports'',
      edge_description = None\<rparr>"

definition to_b :: edge where
  "to_b =
     \<lparr>edge_path = ''/knowledge/b.md'', edge_label = ''relates-to'',
      edge_description = Some ''see also''\<rparr>"

definition to_a :: edge where
  "to_a =
     \<lparr>edge_path = ''/knowledge/a.md'', edge_label = ''contradicts'', edge_description = None\<rparr>"

definition a_md :: entry where
  "a_md =
     \<lparr>entry_path = ''/knowledge/a.md'', entry_slug = ''a'', entry_title = ''Alpha'',
      entry_type = ''concept'', entry_summary = ''The first letter'',
      entry_tags = [''greek'', ''letters''], entry_created = ''2024-01-01'',
      entry_updated = None, entry_edges = [to_missing, to_b],
      entry_sources = [\<lparr>source_url = ''https://example.org/alpha'', source_title = None\<rparr>,
                       \<lparr>source_url = ''https://example.org/abc'',
                        source_title = Some ''The alphabet''\<rparr>],
      entry_body = ''Alpha.''\<rparr>"

definition b_md :: entry where
  "b_md =
     \<lparr>entry_path = ''/knowledge/b.md'', entry_slug = ''b'', entry_title = ''Beta'',
      entry_type = ''concept'', entry_summary = ''The second letter'',
      entry_tags = [''letters''], entry_created = ''2024-01-02'',
      entry_updated = Some ''2024-02-01'', entry_edges = [to_a],
      entry_sources = [], entry_body = ''Beta.''\<rparr>"

definition c_md :: entry where
  "c_md =
     \<lparr>entry_path = ''/knowledge/c.md'', entry_slug = ''c'', entry_title = ''Gamma'',
      entry_type = ''note'', entry_summary = ''The third letter'',
      entry_tags = [], entry_created = ''2024-01-03'',
      entry_updated = None,
      entry_edges =
        [\<lparr>edge_path = ''/knowledge/b.md'', edge_label = ''extends'', edge_description = None\<rparr>,
         \<lparr>edge_path = ''/knowledge/a.md'', edge_label = ''supports'',
          edge_description = Some ''by example''\<rparr>,
         \<lparr>edge_path = ''/knowledge/b.md'', edge_label = ''extends'', edge_description = None\<rparr>],
      entry_sources = [], entry_body = ''Gamma.''\<rparr>"

definition example_parse :: "string \<Rightarrow> entry option" where
  "example_parse md_path =
     (if md_path = ''a.md'' then Some a_md
      else if md_path = ''b.md'' then Some b_md
      else None)"

definition example_glob :: "string list" where
  "example_glob = [''b.md'', ''broken.md'', ''a.md'']"

text \<open>A knowledge base that is the list of its entries, and its methods.\<close>

definition example_kb :: "config \<Rightarrow> entry list" where
  "example_kb cfg = [a_md, b_md]"

definition example_methods :: "(entry list) kb_api" where
  "example_methods =
     \<lparr>read_entry = (\<lambda>kb p. find (\<lambda>en. entry_path en = p) kb),
      get_backlinks = (\<lambda>kb p. []),
      all_entries = (\<lambda>kb. kb),
      entry_count = (\<lambda>kb. length kb),
      type_counts = (\<lambda>kb. [(''concept'', length kb)]),
      tag_counts = (\<lambda>kb. [])\<rparr>"

definition example_config :: config where
  "example_config =
     \<lparr>memex_git_token = Some ''token'', cursor_api_key = Some ''key'',
      github = \<lparr>owner = ''someone'', repo = ''memex'', default_branch = ''main''\<rparr>,
      knowledge = \<lparr>assets_dir = ''knowledge/assets''\<rparr>,
      sync = \<lparr>auto_pull = True\<rparr>\<rparr>"

text \<open>
  An outside world in which every request is answered with the listing of the assets
  directory: one image and one subdirectory.
\<close>

definition example_env :: env where
  "example_env =
     \<lparr>httpx_get = (\<lambda>w url. Inr ''image bytes''),
      path_read = (\<lambda>p. if p = ''pic.png'' then Some ''image bytes'' else None),
      api = (\<lambda>w e. Inr \<lparr>resp_status = 200, resp_text = [],
                         resp_json = Some (JArr
                           [JObj [(''path'', JStr ''knowledge/assets/pic.png''),
                                  (''type'', JStr ''file'')],
                            JObj [(''path'', JStr ''knowledge/assets/old''),
                                  (''type'', JStr ''dir'')]])\<rparr>),
      b64encode = (\<lambda>s. s),
      cursor_launch = (\<lambda>w prompt repository ref. Inr (''agent-1'', ''https://cursor.example/1'')),
      build_prompt = (\<lambda>summary images. ''Add to the knowledge base: '' @ summary),
      unicode_lower = (\<lambda>s. s)\<rparr>"

section \<open>Closed forms of the loops\<close>

lemma dd_get_empty: "dd_get Map.empty p = []"
  by (simp add: dd_get_def)

lemma dd_get_append:
  "dd_get (dd_append d k v) p = (if p = k then dd_get d k @ [v] else dd_get d p)"
  by (simp add: dd_get_def dd_append_def)

lemma dd_get_backlinks_of_edges:
  "dd_get (backlinks_of_edges en es d) p =
     dd_get d p @ map (backlink_of en) (filter (\<lambda>e. edge_path e = p) es)"
  by (induction es arbitrary: d) (auto simp: dd_get_append)

lemma dd_get_collect_backlinks:
  "dd_get (collect_backlinks ens d) p =
     dd_get d p @
     concat (map (\<lambda>en. map (backlink_of en) (filter (\<lambda>e. edge_path e = p) (entry_edges en))) ens)"
  by (induction ens arbitrary: d) (simp_all add: dd_get_backlinks_of_edges)

lemma append_graph_edges_eq:
  "append_graph_edges en es ge = ge @ map (graph_edge_of en) es"
  by (induction es arbitrary: ge) simp_all

lemma serialise_loop_eq:
  "serialise_loop md backlinks ens (ed, gn, ge) =
     (ed @ map (entry_json_of md backlinks) ens,
      gn @ map node_of ens,
      ge @ concat (map (\<lambda>en. map (graph_edge_of en) (entry_edges en)) ens))"
  by (induction ens arbitrary: ed gn ge) (simp_all add: append_graph_edges_eq)

lemma entries_build_data:
  "data_entries (build_data md ens) = map (entry_json_of md (collect_backlinks ens Map.empty)) ens"
  by (simp add: build_data_def serialise_loop_eq Let_def split: prod.split)

lemma graph_build_data:
  "data_graph (build_data md ens) =
     \<lparr>g_nodes = map node_of ens,
      g_edges = concat (map (\<lambda>en. map (graph_edge_of en) (entry_edges en)) ens)\<rparr>"
  by (simp add: build_data_def serialise_loop_eq Let_def split: prod.split)

lemma load_loop_eq:
  "load_loop parse_entry ps ens = ens @ List.map_filter parse_entry ps"
  by (induction ps arbitrary: ens) (simp_all split: option.splits)

lemma backlinks_closed_form:
  "dd_get (collect_backlinks ens Map.empty) p =
     concat (map (\<lambda>en. map (backlink_of en) (filter (\<lambda>e. edge_path e = p) (entry_edges en))) ens)"
  by (simp add: dd_get_collect_backlinks dd_get_empty)

lemma d_backlinks_build_data:
  "map d_backlinks (data_entries (build_data md ens)) =
     map (\<lambda>b. concat (map (\<lambda>en. map (backlink_of en)
                 (filter (\<lambda>e. edge_path e = entry_path b) (entry_edges en))) ens)) ens"
  by (simp add: entries_build_data entry_json_of_def backlinks_closed_form)

lemma stats_build_data:
  "s_total (data_stats (build_data md ens)) = length ens"
  "s_total_edges (data_stats (build_data md ens)) = sum_edges ens"
  by (simp_all add: build_data_def serialise_loop_eq Let_def sum_edges_def length_concat comp_def
      split: prod.split)

subsection \<open>The documents that load\<close>

lemma map_filter_sort_drop:
  assumes "f bad = None"
  shows "List.map_filter f (sort (ps @ bad # qs)) = List.map_filter f (sort (ps @ qs))"
  using assms by (simp add: List.map_filter_def filter_sort)

lemma set_map_filter: "set (List.map_filter f xs) = {y. \<exists>x \<in> set xs. f x = Some y}"
  by (force simp: List.map_filter_def)

lemma length_map_filter_sort:
  "length (List.map_filter f (sort xs)) = length (filter (\<lambda>p. f p \<noteq> None) xs)"
  by (simp add: List.map_filter_def filter_sort)

lemma sorted_map_filter_mono:
  assumes mono: "\<And>p q e f. p \<le> q \<Longrightarrow> pe p = Some e \<Longrightarrow> pe q = Some f \<Longrightarrow> g e \<le> (g f :: string)"
    and "sorted ps"
  shows "sorted (map g (List.map_filter pe ps))"
  using assms(2)
proof (induction ps)
  case Nil
  then show ?case by (simp add: List.map_filter_simps)
next
  case (Cons p ps)
  show ?case
  proof (cases "pe p")
    case None
    with Cons show ?thesis by (simp add: List.map_filter_simps)
  next
    case (Some e)
    have "g e \<le> g f" if "f \<in> set (List.map_filter pe ps)" for f
    proof -
      from that obtain q where "q \<in> set ps" "pe q = Some f"
        by (auto simp: set_map_filter)
      with Cons.prems Some show ?thesis
        by (auto intro: mono)
    qed
    with Cons Some show ?thesis
      by (auto simp: List.map_filter_simps)
  qed
qed

lemma backlink_of_eq:
  "backlink_of en =
     (\<lambda>e. \<lparr>bl_path = entry_path en, bl_title = entry_title en,
            bl_label = edge_label e, bl_description = edge_description e\<rparr>)"
  by (simp add: fun_eq_iff backlink_of_def)


lemma concat_map_if:
  "concat (map (\<lambda>x. if P x then [f x] else []) xs) = map f (filter P xs)"
  by (induction xs) simp_all

lemma filter_removeAll_other: "\<not> P e \<Longrightarrow> filter P (removeAll e xs) = filter P xs"
  by (induction xs) auto

section \<open>Backlinks\<close>

text \<open>
  C1. In the snapshot built from the parsed entries \<open>ens\<close>, the serialised entries are
  those of \<open>ens\<close>, path by path, and the backlinks attached to the loaded entry \<open>b\<close>
  are one record per edge \<open>e\<close> of a loaded entry \<open>en\<close> with
  \<open>edge_path e = entry_path b\<close>. The record has the path and the title of \<open>en\<close> and
  the label and the description of \<open>e\<close>. The records stand in encounter order: the
  entries in snapshot order, the edges of each entry in stored order.
\<close>

theorem backlinks_exact_in_encounter_order:
  "map d_path (data_entries (build_data md ens)) = map entry_path ens
   \<and> map d_backlinks (data_entries (build_data md ens)) =
       map (\<lambda>b. [\<lparr>bl_path = entry_path en, bl_title = entry_title en,
                   bl_label = edge_label e, bl_description = edge_description e\<rparr>.
                  en \<leftarrow> ens, e \<leftarrow> entry_edges en, edge_path e = entry_path b]) ens"
proof -
  have "dd_get (collect_backlinks ens Map.empty) p =
        [\<lparr>bl_path = entry_path en, bl_title = entry_title en,
          bl_label = edge_label e, bl_description = edge_description e\<rparr>.
         en \<leftarrow> ens, e \<leftarrow> entry_edges en, edge_path e = p]" for p
    by (simp add: backlinks_closed_form concat_map_if backlink_of_eq)
  then show ?thesis
    by (simp add: entries_build_data entry_json_of_def)
qed

text \<open>
  The snapshot of \<open>a.md\<close>, \<open>b.md\<close> and \<open>c.md\<close>: the backlinks of \<open>a.md\<close> come from
  \<open>b.md\<close> and \<open>c.md\<close> in this order, those of \<open>b.md\<close> from \<open>a.md\<close> and twice from
  \<open>c.md\<close>, whose two edges to \<open>b.md\<close> are equal, and \<open>c.md\<close> has none; the edge of
  \<open>a.md\<close> to the missing document gives no record.
\<close>

theorem backlinks_of_three_entries:
  "map d_path (data_entries (build_data None [a_md, b_md, c_md])) =
     [''/knowledge/a.md'', ''/knowledge/b.md'', ''/knowledge/c.md'']
   \<and> map d_backlinks (data_entries (build_data None [a_md, b_md, c_md])) =
       [[\<lparr>bl_path = ''/knowledge/b.md'', bl_title = ''Beta'', bl_label = ''contradicts'',
          bl_description = None\<rparr>,
         \<lparr>bl_path = ''/knowledge/c.md'', bl_title = ''Gamma'', bl_label = ''supports'',
          bl_description = Some ''by example''\<rparr>],
        [\<lparr>bl_path = ''/knowledge/a.md'', bl_title = ''Alpha'', bl_label = ''relates-to'',
          bl_description = Some ''see also''\<rparr>,
         \<lparr>bl_path = ''/knowledge/c.md'', bl_title = ''Gamma'', bl_label = ''extends'',
          bl_description = None\<rparr>,
         \<lparr>bl_path = ''/knowledge/c.md'', bl_title = ''Gamma'', bl_label = ''extends'',
          bl_description = None\<rparr>],
        []]"
  using backlinks_exact_in_encounter_order [of None "[a_md, b_md, c_md]"]
  by (simp add: a_md_def b_md_def c_md_def to_missing_def to_b_def to_a_def)

text \<open>
  C2. Let \<open>ens\<close> be the entries that \<open>build\<close> loads, and \<open>e\<close> an edge of the loaded
  entry at position \<open>i\<close> whose target path is the path of no loaded entry. Then \<open>build\<close>
  writes a snapshot \<open>d\<close> of these entries. The serialised edges of the entry at
  position \<open>i\<close> are its stored edges, one for one, each with its path, label and
  description, so the record of \<open>e\<close> is among them. The backlinks of every loaded
  entry are the records of the edges other than \<open>e\<close> that point to it: no backlink
  comes from \<open>e\<close>.
\<close>

theorem dangling_edge_kept_without_backlink:
  assumes "load_loop parse_entry (sort glob) [] = ens"
    and "i < length ens" and "e \<in> set (entry_edges (ens ! i))"
    and "edge_path e \<notin> entry_path ` set ens"
  shows "\<exists>d. build True glob parse_entry md = Some d
       \<and> map d_path (data_entries d) = map entry_path ens
       \<and> d_edges (data_entries d ! i) =
           map (\<lambda>x. \<lparr>ej_path = edge_path x, ej_label = edge_label x,
                      ej_description = edge_description x\<rparr>) (entry_edges (ens ! i))
       \<and> \<lparr>ej_path = edge_path e, ej_label = edge_label e,
          ej_description = edge_description e\<rparr> \<in> set (d_edges (data_entries d ! i))
       \<and> map d_backlinks (data_entries d) =
           map (\<lambda>b. [\<lparr>bl_path = entry_path en, bl_title = entry_title en,
                       bl_label = edge_label x, bl_description = edge_description x\<rparr>.
                      en \<leftarrow> ens, x \<leftarrow> removeAll e (entry_edges en),
                      edge_path x = entry_path b]) ens"
proof -
  have built: "build True glob parse_entry md = Some (build_data md ens)"
    using assms(1) by (simp add: build_def)
  have paths: "map d_path (data_entries (build_data md ens)) = map entry_path ens"
    by (simp add: entries_build_data entry_json_of_def)
  have edges: "d_edges (data_entries (build_data md ens) ! i) =
           map (\<lambda>x. \<lparr>ej_path = edge_path x, ej_label = edge_label x,
                      ej_description = edge_description x\<rparr>) (entry_edges (ens ! i))"
    using assms(2) by (simp add: entries_build_data entry_json_of_def edge_json_of_def)
  have kept: "\<lparr>ej_path = edge_path e, ej_label = edge_label e,
          ej_description = edge_description e\<rparr> \<in> set (d_edges (data_entries (build_data md ens) ! i))"
    unfolding edges using assms(3) by (simp add: image_iff) blast
  have other: "filter (\<lambda>x. edge_path x = entry_path b) (removeAll e es) =
               filter (\<lambda>x. edge_path x = entry_path b) es" if "b \<in> set ens" for b es
    using assms(4) that by (intro filter_removeAll_other) auto
  have "dd_get (collect_backlinks ens Map.empty) (entry_path b) =
        [\<lparr>bl_path = entry_path en, bl_title = entry_title en,
          bl_label = edge_label x, bl_description = edge_description x\<rparr>.
         en \<leftarrow> ens, x \<leftarrow> removeAll e (entry_edges en), edge_path x = entry_path b]"
    if "b \<in> set ens" for b
    by (simp add: backlinks_closed_form concat_map_if backlink_of_eq other [OF that])
  then have backlinks: "map d_backlinks (data_entries (build_data md ens)) =
           map (\<lambda>b. [\<lparr>bl_path = entry_path en, bl_title = entry_title en,
                       bl_label = edge_label x, bl_description = edge_description x\<rparr>.
                      en \<leftarrow> ens, x \<leftarrow> removeAll e (entry_edges en),
                      edge_path x = entry_path b]) ens"
    by (simp add: entries_build_data entry_json_of_def)
  from built paths edges kept backlinks show ?thesis
    by blast
qed

theorem dangling_edge_witness:
  "load_loop example_parse (sort example_glob) [] = [a_md, b_md]
   \<and> 0 < length [a_md, b_md]
   \<and> to_missing \<in> set (entry_edges ([a_md, b_md] ! 0))
   \<and> edge_path to_missing \<notin> entry_path ` set [a_md, b_md]
   \<and> (\<exists>d. build True example_glob example_parse None = Some d
        \<and> map d_path (data_entries d) = [''/knowledge/a.md'', ''/knowledge/b.md'']
        \<and> d_edges (data_entries d ! 0) =
            [\<lparr>ej_path = ''/knowledge/missing.md'', ej_label = ''supports'',
              ej_description = None\<rparr>,
             \<lparr>ej_path = ''/knowledge/b.md'', ej_label = ''relates-to'',
              ej_description = Some ''see also''\<rparr>]
        \<and> map d_backlinks (data_entries d) =
            [[\<lparr>bl_path = ''/knowledge/b.md'', bl_title = ''Beta'', bl_label = ''contradicts'',
               bl_description = None\<rparr>],
             [\<lparr>bl_path = ''/knowledge/a.md'', bl_title = ''Alpha'', bl_label = ''relates-to'',
               bl_description = Some ''see also''\<rparr>]])"
proof -
  have loaded: "load_loop example_parse (sort example_glob) [] = [a_md, b_md]"
    by (simp add: example_glob_def example_parse_def)
  have edge: "to_missing \<in> set (entry_edges ([a_md, b_md] ! 0))"
    by (simp add: a_md_def)
  have dangling: "edge_path to_missing \<notin> entry_path ` set [a_md, b_md]"
    by (simp add: to_missing_def a_md_def b_md_def)
  have pos: "0 < length [a_md, b_md]"
    by simp
  from dangling_edge_kept_without_backlink [OF loaded pos edge dangling, of None]
  obtain d where d: "build True example_glob example_parse None = Some d"
    "map d_path (data_entries d) = map entry_path [a_md, b_md]"
    "d_edges (data_entries d ! 0) =
       map (\<lambda>x. \<lparr>ej_path = edge_path x, ej_label = edge_label x,
                  ej_description = edge_description x\<rparr>) (entry_edges ([a_md, b_md] ! 0))"
    "map d_backlinks (data_entries d) =
       map (\<lambda>b. [\<lparr>bl_path = entry_path en, bl_title = entry_title en,
                   bl_label = edge_label x, bl_description = edge_description x\<rparr>.
                  en \<leftarrow> [a_md, b_md], x \<leftarrow> removeAll to_missing (entry_edges en),
                  edge_path x = entry_path b]) [a_md, b_md]"
    by blast
  have paths: "map d_path (data_entries d) = [''/knowledge/a.md'', ''/knowledge/b.md'']"
    unfolding d(2) by (simp add: a_md_def b_md_def)
  have edges: "d_edges (data_entries d ! 0) =
            [\<lparr>ej_path = ''/knowledge/missing.md'', ej_label = ''supports'',
              ej_description = None\<rparr>,
             \<lparr>ej_path = ''/knowledge/b.md'', ej_label = ''relates-to'',
              ej_description = Some ''see also''\<rparr>]"
    unfolding d(3) by (simp add: a_md_def to_missing_def to_b_def)
  have backlinks: "map d_backlinks (data_entries d) =
            [[\<lparr>bl_path = ''/knowledge/b.md'', bl_title = ''Beta'', bl_label = ''contradicts'',
               bl_description = None\<rparr>],
             [\<lparr>bl_path = ''/knowledge/a.md'', bl_title = ''Alpha'', bl_label = ''relates-to'',
               bl_description = Some ''see also''\<rparr>]]"
    unfolding d(4) by (simp add: a_md_def b_md_def to_missing_def to_b_def to_a_def)
  show ?thesis
    by (intro conjI exI [of _ d] loaded pos edge dangling d(1) paths edges backlinks)
qed

section \<open>Loading\<close>

text \<open>
  C3. A document \<open>bad\<close> whose parse fails, anywhere among the documents that the
  directory holds, is skipped: the entries that load are those of the batch without it,
  they are the entries of the documents that parse, and \<open>build\<close> writes the snapshot of
  exactly these.
\<close>

theorem failed_parse_skipped_others_loaded:
  assumes "parse_entry bad = None"
  shows "load_loop parse_entry (sort (ps @ bad # qs)) [] = load_loop parse_entry (sort (ps @ qs)) []
       \<and> set (load_loop parse_entry (sort (ps @ bad # qs)) []) =
           {en. \<exists>p \<in> set (ps @ qs). parse_entry p = Some en}
       \<and> build True (ps @ bad # qs) parse_entry md =
           Some (build_data md (load_loop parse_entry (sort (ps @ qs)) []))"
  using assms
  by (simp add: load_loop_eq map_filter_sort_drop set_map_filter build_def)

theorem failed_parse_witness:
  "example_parse ''broken.md'' = None
   \<and> load_loop example_parse (sort [''b.md'', ''broken.md'', ''a.md'']) [] = [a_md, b_md]
   \<and> build True [''b.md'', ''broken.md'', ''a.md''] example_parse None =
       Some (build_data None [a_md, b_md])"
  using failed_parse_skipped_others_loaded
          [of example_parse "''broken.md''" "[''b.md'']" "[''a.md'']" None]
  by (simp add: example_parse_def)

text \<open>
  C6. The entries of the snapshot and the nodes of the graph are those of the documents
  that parse, in the ascending order of the document paths. When \<open>parse_entry\<close> gives
  the entries paths that grow with the document paths, as the repo-relative path of
  the document does, both lists are sorted ascending by path.
\<close>

theorem entries_in_sorted_load_order:
  assumes "\<And>p q e f. p \<le> q \<Longrightarrow> parse_entry p = Some e \<Longrightarrow> parse_entry q = Some f \<Longrightarrow>
             entry_path e \<le> entry_path f"
  shows "\<exists>d. build True glob parse_entry md = Some d
           \<and> map d_path (data_entries d) =
               map entry_path (List.map_filter parse_entry (sort glob))
           \<and> map n_id (g_nodes (data_graph d)) =
               map entry_path (List.map_filter parse_entry (sort glob))
           \<and> sorted (map d_path (data_entries d))
           \<and> sorted (map n_id (g_nodes (data_graph d)))"
proof -
  have "sorted (map entry_path (List.map_filter parse_entry (sort glob)))"
    by (rule sorted_map_filter_mono) (use assms in auto)
  then show ?thesis
    by (simp add: build_def load_loop_eq entries_build_data graph_build_data
        entry_json_of_def node_of_def comp_def)
qed

theorem sorted_load_order_witness:
  "\<exists>d. build True example_glob example_parse None = Some d
       \<and> map d_path (data_entries d) = [''/knowledge/a.md'', ''/knowledge/b.md'']
       \<and> map n_id (g_nodes (data_graph d)) = [''/knowledge/a.md'', ''/knowledge/b.md'']
       \<and> sorted (map d_path (data_entries d))
       \<and> sorted (map n_id (g_nodes (data_graph d)))"
proof -
  have mono: "p \<le> q \<Longrightarrow> example_parse p = Some e \<Longrightarrow> example_parse q = Some f \<Longrightarrow>
       entry_path e \<le> entry_path f" for p q e f
    by (auto simp: example_parse_def a_md_def b_md_def split: if_splits)
  have ld: "List.map_filter example_parse (sort example_glob) = [a_md, b_md]"
    by (simp add: example_glob_def example_parse_def List.map_filter_simps)
  show ?thesis
    using entries_in_sorted_load_order [of example_parse example_glob None, OF mono]
    by (simp add: ld a_md_def b_md_def)
qed

section \<open>Totals\<close>

text \<open>
  C5. The \<open>total_edges\<close> of the viewer's statistics is the sum, over the loaded entries,
  of the lengths of their edge lists, and \<open>total\<close> is the number of loaded entries, which
  is the number of documents that parse. The sum that \<open>cmd_stats\<close> computes over
  \<open>kb.all_entries()\<close> is the same quantity, and its line \<open>Edges:\<close> prints it.
\<close>

theorem edge_and_entry_totals:
  "s_total_edges (data_stats (build_data md ens)) = sum_list (map (\<lambda>en. length (entry_edges en)) ens)
   \<and> s_total (data_stats (build_data md ens)) = length ens
   \<and> s_total (data_stats (build_data md (load_loop parse_entry (sort glob) []))) =
       length (filter (\<lambda>p. parse_entry p \<noteq> None) glob)
   \<and> sum_edges ens = s_total_edges (data_stats (build_data md ens))
   \<and> stdout (fst (cmd_stats loaded KnowledgeBase kbm)) ! 1 =
       ''Edges: '' @ str_nat (s_total_edges (data_stats
          (build_data md (all_entries kbm (make_kb loaded KnowledgeBase)))))"
  by (simp add: stats_build_data load_loop_eq length_map_filter_sort cmd_stats_def Let_def)
    (simp add: sum_edges_def)

section \<open>Reading\<close>







text \<open>
  C7. For a path that \<open>kb.read_entry\<close> finds no entry for, \<open>kb_read\<close> returns the
  string \<open>Entry not found: <path>\<close>, and \<open>cmd_read\<close> prints that line to standard
  error and exits with status 1; neither raises.
\<close>

theorem missing_entry_reported_absent:
  assumes "read_entry kbm kb path = None"
    and "read_entry kbm (make_kb loaded KnowledgeBase) path = None"
  shows "kb_read kbm kb path = ''Entry not found: '' @ path
       \<and> cmd_read loaded KnowledgeBase kbm path =
           (\<lparr>stdout = [], stderr = [''Entry not found: '' @ path]\<rparr>, Exit 1)"
  using assms by (simp add: kb_read_def cmd_read_def)

theorem missing_entry_witness:
  "read_entry example_methods [a_md, b_md] ''/knowledge/missing.md'' = None
   \<and> read_entry example_methods (make_kb example_config example_kb) ''/knowledge/missing.md'' = None
   \<and> kb_read example_methods [a_md, b_md] ''/knowledge/missing.md'' =
       ''Entry not found: /knowledge/missing.md''
   \<and> cmd_read example_config example_kb example_methods ''/knowledge/missing.md'' =
       (\<lparr>stdout = [], stderr = [''Entry not found: /knowledge/missing.md'']\<rparr>, Exit 1)"
  using missing_entry_reported_absent
          [of example_methods "[a_md, b_md]" "''/knowledge/missing.md''" example_config example_kb]
  by (simp add: example_methods_def example_kb_def make_kb_def a_md_def b_md_def)

section \<open>The knowledge base of the command line\<close>

text \<open>
  C8. \<open>_make_kb\<close> hands the constructor the loaded configuration with \<open>sync.auto_pull\<close>
  set to \<open>False\<close> and nothing else changed, whatever the loaded flag was, and the
  commands \<open>cmd_read\<close> and \<open>cmd_stats\<close>, which take their knowledge base from it, do
  not depend on the loaded flag. A knowledge base so constructed keeps the index built
  from the local documents through any sequence of reads, whatever the fetch hook
  delivers.
\<close>

theorem cli_kb_auto_pull_off:
  "make_kb loaded KnowledgeBase = KnowledgeBase (make_kb_config loaded)
   \<and> auto_pull (sync (make_kb_config loaded)) = False
   \<and> make_kb_config (loaded\<lparr>sync := (sync loaded)\<lparr>auto_pull := flag\<rparr>\<rparr>) = make_kb_config loaded
   \<and> memex_git_token (make_kb_config loaded) = memex_git_token loaded
   \<and> cursor_api_key (make_kb_config loaded) = cursor_api_key loaded
   \<and> github (make_kb_config loaded) = github loaded
   \<and> knowledge (make_kb_config loaded) = knowledge loaded
   \<and> cmd_read (loaded\<lparr>sync := (sync loaded)\<lparr>auto_pull := flag\<rparr>\<rparr>) KnowledgeBase kbm path =
       cmd_read loaded KnowledgeBase kbm path
   \<and> cmd_stats (loaded\<lparr>sync := (sync loaded)\<lparr>auto_pull := flag\<rparr>\<rparr>) KnowledgeBase kbm =
       cmd_stats loaded KnowledgeBase kbm
   \<and> kb_index (fold refresh_before_read fetches (make_kb loaded (KnowledgeBase_spec docs))) = docs"
proof -
  have cfg: "make_kb_config (loaded\<lparr>sync := (sync loaded)\<lparr>auto_pull := flag\<rparr>\<rparr>) = make_kb_config loaded"
    by (simp add: make_kb_config_def)
  have keep: "fold refresh_before_read fetches kb = kb" if "\<not> auto_pull (sync (kb_config kb))"
    for kb
    using that by (induction fetches) (simp_all add: refresh_before_read_def)
  have "kb_index (fold refresh_before_read fetches (make_kb loaded (KnowledgeBase_spec docs))) = docs"
    by (subst keep) (simp_all add: make_kb_def KnowledgeBase_spec_def make_kb_config_def)
  then show ?thesis
    by (simp add: cfg make_kb_def cmd_read_def cmd_stats_def) (simp add: make_kb_config_def)
qed

section \<open>Uploads\<close>

lemma supported_extensions_text:
  "join '', '' (sorted_list_of_set IMAGE_EXTENSIONS) = ''.gif, .jpeg, .jpg, .png, .svg, .webp''"
  by (simp add: IMAGE_EXTENSIONS_def)

text \<open>
  C9. For a source whose extension, derived from its file name and lower-cased, is not
  in \<open>IMAGE_EXTENSIONS\<close>, \<open>kb_upload\<close> returns a message that begins with
  \<open>Error:\<close> and leaves the log of effects as it was: no fetch and no request to the
  repository. When the token and the repository are configured the message is the one
  about the unsupported image type. In \<open>cmd_upload\<close> the loop prints the line
  \<open>Skipping\<close> to standard error, performs no effect for that source, and goes on with
  the remaining sources.
\<close>

theorem unsupported_extension_no_effect:
  assumes "upload_ext env source \<notin> IMAGE_EXTENSIONS"
  shows "(\<exists>msg. kb_upload config env source branch w = (Inr (''Error: '' @ msg), w))
       \<and> (truthy (memex_git_token config) \<and> owner (github config) \<noteq> [] \<and> repo (github config) \<noteq> []
            \<longrightarrow> kb_upload config env source branch w =
                (Inr (''Error: Unsupported image type '' @ sq @ upload_ext env source @ sq @
                      ''. Supported: .gif, .jpeg, .jpg, .png, .svg, .webp''), w))
       \<and> cmd_upload_loop config env gh br (source # rest) (w, out) =
           cmd_upload_loop config env gh br rest
             (w, out\<lparr>stderr := stderr out @
                [''Skipping '' @ upload_filename source @ '': unsupported type '' @ sq @
                 upload_ext env source @ sq]\<rparr>)"
proof -
  have unsupported: "kb_upload config env source branch w =
      (Inr (''Error: Unsupported image type '' @ sq @ upload_ext env source @ sq @
            ''. Supported: .gif, .jpeg, .jpg, .png, .svg, .webp''), w)"
    if "truthy (memex_git_token config)" "owner (github config) \<noteq> []" "repo (github config) \<noteq> []"
    using that assms by (simp add: kb_upload_def Let_def supported_extensions_text)
  have "\<exists>msg. kb_upload config env source branch w = (Inr (''Error: '' @ msg), w)"
  proof (cases "truthy (memex_git_token config)")
    case False
    then have "kb_upload config env source branch w =
                 (Inr (''Error: '' @ ''MEMEX_GIT_TOKEN not configured''), w)"
      by (simp add: kb_upload_def)
    then show ?thesis by blast
  next
    case token: True
    show ?thesis
    proof (cases "owner (github config) = [] \<or> repo (github config) = []")
      case True
      with token have "kb_upload config env source branch w =
                 (Inr (''Error: '' @ ''GitHub repository not configured in config.yaml''), w)"
        by (simp add: kb_upload_def)
      then show ?thesis by blast
    next
      case False
      with token have "kb_upload config env source branch w =
          (Inr (''Error: '' @ (''Unsupported image type '' @ sq @ upload_ext env source @ sq @
            ''. Supported: .gif, .jpeg, .jpg, .png, .svg, .webp'')), w)"
        using unsupported by simp
      then show ?thesis by blast
    qed
  qed
  moreover have "cmd_upload_loop config env gh br (source # rest) (w, out) =
           cmd_upload_loop config env gh br rest
             (w, out\<lparr>stderr := stderr out @
                [''Skipping '' @ upload_filename source @ '': unsupported type '' @ sq @
                 upload_ext env source @ sq]\<rparr>)"
    using assms by (simp add: Let_def)
  ultimately show ?thesis
    using unsupported by blast
qed

lemma notes_ext: "upload_ext env ''notes/Plan.TXT'' = ''.txt''"
  by (simp add: upload_ext_def upload_filename_def upload_is_url_def startswith_def
      PurePosixPath_suffix_def PurePosixPath_name_def str_lower_def is_ascii_def lower_char_def)

theorem unsupported_extension_witness:
  "upload_ext example_env ''notes/Plan.TXT'' \<notin> IMAGE_EXTENSIONS
   \<and> kb_upload example_config example_env ''notes/Plan.TXT'' None [] =
       (Inr (''Error: Unsupported image type '' @ sq @ ''.txt'' @ sq @
             ''. Supported: .gif, .jpeg, .jpg, .png, .svg, .webp''), [])
   \<and> cmd_upload_loop example_config example_env (client_of example_config) ''main''
         [''notes/Plan.TXT''] ([], \<lparr>stdout = [], stderr = []\<rparr>) =
       (None, [], \<lparr>stdout = [],
                   stderr = [''Skipping Plan.TXT: unsupported type '' @ sq @ ''.txt'' @ sq]\<rparr>)"
proof -
  have ext: "upload_ext example_env ''notes/Plan.TXT'' \<notin> IMAGE_EXTENSIONS"
    by (simp add: notes_ext IMAGE_EXTENSIONS_def)
  have name: "upload_filename ''notes/Plan.TXT'' = ''Plan.TXT''"
    by (simp add: upload_filename_def upload_is_url_def startswith_def PurePosixPath_name_def)
  show ?thesis
    using ext unsupported_extension_no_effect
            [OF ext, of example_config None "[]" "client_of example_config"
               "''main''" "[]" "\<lparr>stdout = [], stderr = []\<rparr>"]
    by (simp add: notes_ext name example_config_def)
qed

section \<open>Adding knowledge\<close>

subsection \<open>Stripping\<close>

lemma blank_append: "blank a \<Longrightarrow> blank b \<Longrightarrow> blank (a @ b)"
  by (induction rule: blank.induct) (simp_all add: blank.space)

lemma blank_concat: "set ws \<subseteq> set whitespace \<Longrightarrow> blank (concat ws)"
  by (induction ws) (auto intro: blank.intros)

lemma blank_rev_concat:
  "set ws \<subseteq> set (map rev whitespace) \<Longrightarrow> blank (rev (concat ws))"
proof (induction ws)
  case Nil
  then show ?case by (simp add: blank.empty)
next
  case (Cons u ws)
  then have "rev u \<in> set whitespace"
    by auto
  then have "blank (rev u @ [])"
    by (intro blank.intros)
  with Cons show ?case
    by (simp add: blank_append)
qed

lemma strip_prefixes_decomp:
  "\<exists>pre. set pre \<subseteq> set tbl \<and> s = concat pre @ strip_prefixes tbl s"
proof (induction tbl s rule: strip_prefixes.induct)
  case (1 tbl s)
  show ?case
  proof (cases "find (\<lambda>u. u \<noteq> [] \<and> startswith s u) tbl")
    case None
    then have "strip_prefixes tbl s = s"
      by (simp add: strip_prefixes.simps)
    then have "set [] \<subseteq> set tbl \<and> s = concat [] @ strip_prefixes tbl s"
      by simp
    then show ?thesis by blast
  next
    case (Some u)
    then have u: "u \<in> set tbl" "take (length u) s = u"
      by (auto simp: find_Some_iff startswith_def)
    from 1 [OF Some] obtain pre where pre: "set pre \<subseteq> set tbl"
      "drop (length u) s = concat pre @ strip_prefixes tbl (drop (length u) s)"
      by blast
    have "strip_prefixes tbl s = strip_prefixes tbl (drop (length u) s)"
      using Some by (simp add: strip_prefixes.simps)
    moreover have "s = u @ drop (length u) s"
      using u(2) by (metis append_take_drop_id)
    ultimately have "set (u # pre) \<subseteq> set tbl \<and> s = concat (u # pre) @ strip_prefixes tbl s"
      using pre u(1) by simp
    then show ?thesis by blast
  qed
qed

lemma strip_prefixes_no_prefix:
  "u \<in> set tbl \<Longrightarrow> u \<noteq> [] \<Longrightarrow> \<not> startswith (strip_prefixes tbl s) u"
proof (induction tbl s rule: strip_prefixes.induct)
  case (1 tbl s)
  show ?case
  proof (cases "find (\<lambda>u. u \<noteq> [] \<and> startswith s u) tbl")
    case None
    then have "strip_prefixes tbl s = s"
      by (simp add: strip_prefixes.simps)
    with None 1(2,3) show ?thesis
      by (auto simp: find_None_iff)
  next
    case (Some v)
    then show ?thesis
      using 1 by (simp add: strip_prefixes.simps)
  qed
qed

lemma strip_prefixes_Nil: "strip_prefixes tbl [] = []"
proof -
  have "find (\<lambda>u. u \<noteq> [] \<and> startswith [] u) tbl = None"
    by (auto simp: find_None_iff startswith_def)
  then show ?thesis
    by (simp add: strip_prefixes.simps)
qed

lemma whitespace_nonempty: "u \<in> set whitespace \<Longrightarrow> u \<noteq> []"
  by (auto simp: whitespace_def)

text \<open>The length of a character's UTF-8 form can be read off its first byte.\<close>

lemma whitespace_width:
  "u \<in> set whitespace \<Longrightarrow>
     length u = (if of_char (hd u) < (0x80::nat) then 1
                 else if of_char (hd u) < (0xE0::nat) then 2 else 3)"
  by (auto simp: whitespace_def)

lemma whitespace_prefix_free:
  assumes "u \<in> set whitespace" "v \<in> set whitespace" "startswith (u @ s) v"
  shows "v = u"
proof -
  from assms have ne: "u \<noteq> []" "v \<noteq> []"
    by (auto dest: whitespace_nonempty)
  from assms(3) have tk: "take (length v) (u @ s) = v"
    by (simp add: startswith_def)
  with ne have "hd v = hd u"
    by (metis hd_append2 hd_take length_greater_0_conv)
  with whitespace_width [OF assms(1)] whitespace_width [OF assms(2)] have "length v = length u"
    by simp
  with tk show ?thesis
    by simp
qed

lemma lstrip_blank: "blank s \<Longrightarrow> lstrip s = []"
proof (induction rule: blank.induct)
  case empty
  then show ?case
    by (simp add: lstrip_def strip_prefixes_Nil)
next
  case (space u s)
  have "\<exists>v. find (\<lambda>v. v \<noteq> [] \<and> startswith (u @ s) v) whitespace = Some v"
    using space(1) whitespace_nonempty [OF space(1)]
    by (cases "find (\<lambda>v. v \<noteq> [] \<and> startswith (u @ s) v) whitespace")
      (auto simp: find_None_iff startswith_def)
  then obtain v where v: "find (\<lambda>v. v \<noteq> [] \<and> startswith (u @ s) v) whitespace = Some v"
    by blast
  then have "v \<in> set whitespace" "startswith (u @ s) v"
    by (auto simp: find_Some_iff)
  then have "v = u"
    using space(1) by (rule whitespace_prefix_free [rotated])
  with v space(3) show ?case
    by (simp add: lstrip_def strip_prefixes.simps [of whitespace "u @ s"])
qed

lemma rstrip_Nil: "rstrip [] = []"
  by (simp add: rstrip_def strip_prefixes_Nil)

lemma lstrip_decomp: "\<exists>pre. blank pre \<and> s = pre @ lstrip s"
  using strip_prefixes_decomp [of whitespace s] by (auto simp: lstrip_def intro: blank_concat)

lemma rstrip_decomp: "\<exists>post. blank post \<and> s = rstrip s @ post"
proof -
  obtain pre where pre: "set pre \<subseteq> set (map rev whitespace)"
    "rev s = concat pre @ strip_prefixes (map rev whitespace) (rev s)"
    using strip_prefixes_decomp [of "map rev whitespace" "rev s"] by blast
  from pre(2) have "s = rstrip s @ rev (concat pre)"
    unfolding rstrip_def by (metis rev_append rev_rev_ident)
  with blank_rev_concat [OF pre(1)] show ?thesis
    by blast
qed

lemma str_strip_decomp:
  "\<exists>pre post. blank pre \<and> blank post \<and> s = pre @ str_strip s @ post"
proof -
  obtain pre where pre: "blank pre" "s = pre @ lstrip s"
    using lstrip_decomp by blast
  obtain post where post: "blank post" "lstrip s = rstrip (lstrip s) @ post"
    using rstrip_decomp by blast
  from pre(2) post(2) have "s = pre @ str_strip s @ post"
    by (simp add: str_strip_def)
  with pre(1) post(1) show ?thesis
    by blast
qed

lemma str_strip_blank_iff: "str_strip s = [] \<longleftrightarrow> blank s"
proof
  assume "str_strip s = []"
  with str_strip_decomp [of s] show "blank s"
    by (auto intro: blank_append)
next
  assume "blank s"
  then show "str_strip s = []"
    by (simp add: str_strip_def lstrip_blank rstrip_Nil)
qed

lemma str_strip_ends:
  assumes "u \<in> set whitespace"
  shows "\<not> startswith (str_strip s) u" and "\<not> endswith (str_strip s) u"
proof -
  have ne: "u \<noteq> []"
    using assms by (rule whitespace_nonempty)
  obtain post where post: "lstrip s = str_strip s @ post"
    using rstrip_decomp [of "lstrip s"] by (auto simp: str_strip_def)
  show "\<not> startswith (str_strip s) u"
  proof
    assume "startswith (str_strip s) u"
    then have "take (length u) (str_strip s) = u"
      by (simp add: startswith_def)
    then have "length u \<le> length (str_strip s)"
      by (metis length_take min_def nat_le_linear)
    with \<open>take (length u) (str_strip s) = u\<close> post have "startswith (lstrip s) u"
      by (simp add: startswith_def)
    with strip_prefixes_no_prefix [OF assms ne, of s] show False
      by (simp add: lstrip_def)
  qed
  show "\<not> endswith (str_strip s) u"
  proof
    assume "endswith (str_strip s) u"
    then have "startswith (rev (str_strip s)) (rev u)"
      by (auto simp: endswith_def startswith_def take_rev)
    moreover have "rev u \<in> set (map rev whitespace)" "rev u \<noteq> []"
      using assms ne by auto
    ultimately show False
      using strip_prefixes_no_prefix [of "rev u" "map rev whitespace" "rev (lstrip s)"]
      by (simp add: str_strip_def rstrip_def)
  qed
qed

subsection \<open>\<open>kb_add\<close>\<close>

lemma snd_list_directory:
  "snd (list_directory env gh dir_path branch w) =
     w @ [ApiGet (repo_prefix gh @ ''/contents/'' @ dir_path) (Some branch)]"
  by (simp add: list_directory_def request_def Let_def split: option.split sum.split json.split)

lemma kb_add_images_log:
  "kb_add_images config env target w = (r, w1) \<Longrightarrow>
     w1 = w \<or> (\<exists>url ref. w1 = w @ [ApiGet url ref])"
  using snd_list_directory [of env "client_of config" "assets_dir (knowledge config)" target w]
  by (auto simp: kb_add_images_def split: if_splits prod.splits sum.splits exn.splits)

text \<open>
  C10. For a summary that is empty or consists of whitespace characters only, \<open>kb_add\<close>
  returns \<open>Error: Summary cannot be empty\<close> and performs no effect, so no agent is
  launched. The stripped summary is the summary without the whitespace at its two
  ends: the summary is a blank string, the stripped summary and a blank string in a
  row, and the stripped summary neither begins nor ends with a whitespace character.
  For a summary that is not blank the stripped summary is not empty, every agent that
  \<open>kb_add\<close> launches gets a prompt built from it, and when the API key and the
  repository are configured and the listing of the assets raises nothing, the agent is
  launched with that prompt.
\<close>

theorem kb_add_summary_checked_and_stripped:
  "(blank summary \<longrightarrow>
      kb_add config env summary branch w = (Inr ''Error: Summary cannot be empty'', w))
   \<and> (\<exists>pre post. blank pre \<and> blank post \<and> summary = pre @ str_strip summary @ post)
   \<and> (\<forall>u \<in> set whitespace.
        \<not> startswith (str_strip summary) u \<and> \<not> endswith (str_strip summary) u)
   \<and> (\<not> blank summary \<longrightarrow>
        str_strip summary \<noteq> []
      \<and> (\<forall>prompt repository ref.
           LaunchAgent prompt repository ref \<in> set (snd (kb_add config env summary branch w)) - set w
           \<longrightarrow> (\<exists>images. prompt = build_prompt env (str_strip summary) images))
      \<and> (truthy (cursor_api_key config) \<and> owner (github config) \<noteq> [] \<and> repo (github config) \<noteq> []
           \<and> kb_add_images config env
                (if truthy branch then fmt branch else default_branch (github config)) w =
               (Inr images, w1)
          \<longrightarrow> snd (kb_add config env summary branch w) =
               w1 @ [LaunchAgent (build_prompt env (str_strip summary) images)
                       (''https://github.com/'' @ owner (github config) @ ''/'' @ repo (github config))
                       (if truthy branch then fmt branch else default_branch (github config))]))"
proof (intro conjI impI ballI)
  assume "blank summary"
  then have "str_strip summary = []"
    by (simp add: str_strip_blank_iff)
  then show "kb_add config env summary branch w = (Inr ''Error: Summary cannot be empty'', w)"
    by (simp add: kb_add_def)
next
  show "\<exists>pre post. blank pre \<and> blank post \<and> summary = pre @ str_strip summary @ post"
    by (rule str_strip_decomp)
next
  fix u assume "u \<in> set whitespace"
  then show "\<not> startswith (str_strip summary) u" and "\<not> endswith (str_strip summary) u"
    by (rule str_strip_ends)+
next
  assume "\<not> blank summary"
  then show "str_strip summary \<noteq> []"
    by (simp add: str_strip_blank_iff)
next
  assume nonblank: "\<not> blank summary"
  then have ne: "summary \<noteq> []" "str_strip summary \<noteq> []"
    by (auto simp: str_strip_blank_iff intro: blank.empty)
  show "\<forall>prompt repository ref.
           LaunchAgent prompt repository ref \<in> set (snd (kb_add config env summary branch w)) - set w
           \<longrightarrow> (\<exists>images. prompt = build_prompt env (str_strip summary) images)"
  proof (intro allI impI)
    fix prompt repository ref
    assume mem: "LaunchAgent prompt repository ref \<in> set (snd (kb_add config env summary branch w)) - set w"
    obtain r w1 where im: "kb_add_images config env
                (if truthy branch then fmt branch else default_branch (github config)) w = (r, w1)"
      by (cases "kb_add_images config env
                (if truthy branch then fmt branch else default_branch (github config)) w")
    from kb_add_images_log [OF im] have w1: "w1 = w \<or> (\<exists>url ref. w1 = w @ [ApiGet url ref])" .
    show "\<exists>images. prompt = build_prompt env (str_strip summary) images"
      using mem ne im w1
      by (auto simp: kb_add_def Let_def split: if_splits sum.splits prod.splits)
  qed
next
  assume nonblank: "\<not> blank summary"
    and cfg: "truthy (cursor_api_key config) \<and> owner (github config) \<noteq> [] \<and> repo (github config) \<noteq> []
           \<and> kb_add_images config env
                (if truthy branch then fmt branch else default_branch (github config)) w =
               (Inr images, w1)"
  from nonblank have ne: "summary \<noteq> []" "str_strip summary \<noteq> []"
    by (auto simp: str_strip_blank_iff intro: blank.empty)
  show "snd (kb_add config env summary branch w) =
               w1 @ [LaunchAgent (build_prompt env (str_strip summary) images)
                       (''https://github.com/'' @ owner (github config) @ ''/'' @ repo (github config))
                       (if truthy branch then fmt branch else default_branch (github config))]"
    using ne cfg by (auto simp: kb_add_def Let_def split: sum.splits prod.splits)
qed

text \<open>
  A summary of a no-break space (U+00A0), an em space (U+2003), a space and a newline
  is rejected. A summary with an ideographic space (U+3000) and spaces before the text
  and a space, a newline and a no-break space after it gives the prompt of the text
  alone. A zero-width space (U+200B) is not whitespace: a summary of this character
  is not blank, and the prompt is built from it.
\<close>

theorem kb_add_summary_witness:
  "blank ([CHR 0xC2, CHR 0xA0, CHR 0xE2, CHR 0x80, CHR 0x83] @ '' '' @ nl)
   \<and> kb_add example_config example_env
        ([CHR 0xC2, CHR 0xA0, CHR 0xE2, CHR 0x80, CHR 0x83] @ '' '' @ nl) None [] =
       (Inr ''Error: Summary cannot be empty'', [])
   \<and> \<not> blank ([CHR 0xE3, CHR 0x80, CHR 0x80] @ ''  Alpha is a letter. '' @ nl @
               [CHR 0xC2, CHR 0xA0])
   \<and> str_strip ([CHR 0xE3, CHR 0x80, CHR 0x80] @ ''  Alpha is a letter. '' @ nl @
                 [CHR 0xC2, CHR 0xA0]) = ''Alpha is a letter.''
   \<and> snd (kb_add example_config example_env
            ([CHR 0xE3, CHR 0x80, CHR 0x80] @ ''  Alpha is a letter. '' @ nl @
             [CHR 0xC2, CHR 0xA0]) None []) =
       [ApiGet ''https://api.github.com/repos/someone/memex/contents/knowledge/assets''
          (Some ''main''),
        LaunchAgent ''Add to the knowledge base: Alpha is a letter.''
          ''https://github.com/someone/memex'' ''main'']
   \<and> \<not> blank [CHR 0xE2, CHR 0x80, CHR 0x8B]
   \<and> snd (kb_add example_config example_env [CHR 0xE2, CHR 0x80, CHR 0x8B] None []) =
       [ApiGet ''https://api.github.com/repos/someone/memex/contents/knowledge/assets''
          (Some ''main''),
        LaunchAgent (''Add to the knowledge base: '' @ [CHR 0xE2, CHR 0x80, CHR 0x8B])
          ''https://github.com/someone/memex'' ''main'']"
proof -
  let ?blank = "[CHR 0xC2, CHR 0xA0, CHR 0xE2, CHR 0x80, CHR 0x83] @ '' '' @ nl"
  let ?alpha = "[CHR 0xE3, CHR 0x80, CHR 0x80] @ ''  Alpha is a letter. '' @ nl @
                [CHR 0xC2, CHR 0xA0]"
  let ?zwsp = "[CHR 0xE2, CHR 0x80, CHR 0x8B]"
  let ?listing = "[ApiGet ''https://api.github.com/repos/someone/memex/contents/knowledge/assets''
                     (Some ''main'')]"
  have strip_blank: "str_strip ?blank = []"
    by (simp add: str_strip_def lstrip_def rstrip_def strip_prefixes.simps whitespace_def
        startswith_def nl_def)
  have strip_alpha: "str_strip ?alpha = ''Alpha is a letter.''"
    by (simp add: str_strip_def lstrip_def rstrip_def strip_prefixes.simps whitespace_def
        startswith_def nl_def)
  have strip_zwsp: "str_strip ?zwsp = ?zwsp"
    by (simp add: str_strip_def lstrip_def rstrip_def strip_prefixes.simps whitespace_def
        startswith_def)
  have blank1: "blank ?blank"
    using strip_blank by (simp only: str_strip_blank_iff)
  have nonblank2: "\<not> blank ?alpha"
    using strip_alpha by (simp flip: str_strip_blank_iff)
  have nonblank3: "\<not> blank ?zwsp"
    using strip_zwsp by (simp flip: str_strip_blank_iff)
  have branch: "(if truthy None then fmt None else default_branch (github example_config)) = ''main''"
    by (simp add: example_config_def)
  have images: "kb_add_images example_config example_env ''main'' [] =
      (Inr [JStr ''knowledge/assets/pic.png''], ?listing)"
    by (simp add: kb_add_images_def list_directory_def request_def example_config_def
        example_env_def client_of_def repo_prefix_def API_BASE_def)
  have cfg: "truthy (cursor_api_key example_config) \<and> owner (github example_config) \<noteq> []
        \<and> repo (github example_config) \<noteq> []
        \<and> kb_add_images example_config example_env
             (if truthy None then fmt None else default_branch (github example_config)) [] =
           (Inr [JStr ''knowledge/assets/pic.png''], ?listing)"
    unfolding branch images by (simp add: example_config_def)
  have rejected: "kb_add example_config example_env ?blank None [] =
       (Inr ''Error: Summary cannot be empty'', [])"
    by (rule mp [OF conjunct1 [OF kb_add_summary_checked_and_stripped] blank1])
  have launched2: "snd (kb_add example_config example_env ?alpha None []) =
      ?listing @
      [LaunchAgent
         (build_prompt example_env (str_strip ?alpha) [JStr ''knowledge/assets/pic.png''])
         (''https://github.com/'' @ owner (github example_config) @ ''/'' @
          repo (github example_config))
         (if truthy None then fmt None else default_branch (github example_config))]"
    by (rule mp [OF conjunct2 [OF conjunct2 [OF mp [OF conjunct2 [OF conjunct2 [OF conjunct2
          [OF kb_add_summary_checked_and_stripped]]] nonblank2]]] cfg])
  have launched3: "snd (kb_add example_config example_env ?zwsp None []) =
      ?listing @
      [LaunchAgent
         (build_prompt example_env (str_strip ?zwsp) [JStr ''knowledge/assets/pic.png''])
         (''https://github.com/'' @ owner (github example_config) @ ''/'' @
          repo (github example_config))
         (if truthy None then fmt None else default_branch (github example_config))]"
    by (rule mp [OF conjunct2 [OF conjunct2 [OF mp [OF conjunct2 [OF conjunct2 [OF conjunct2
          [OF kb_add_summary_checked_and_stripped]]] nonblank3]]] cfg])
  have launched2': "snd (kb_add example_config example_env ?alpha None []) =
       [ApiGet ''https://api.github.com/repos/someone/memex/contents/knowledge/assets''
          (Some ''main''),
        LaunchAgent ''Add to the knowledge base: Alpha is a letter.''
          ''https://github.com/someone/memex'' ''main'']"
    unfolding launched2 strip_alpha by (simp add: example_config_def example_env_def)
  have launched3': "snd (kb_add example_config example_env ?zwsp None []) =
       [ApiGet ''https://api.github.com/repos/someone/memex/contents/knowledge/assets''
          (Some ''main''),
        LaunchAgent (''Add to the knowledge base: '' @ ?zwsp)
          ''https://github.com/someone/memex'' ''main'']"
    unfolding launched3 strip_zwsp by (simp add: example_config_def example_env_def)
  from blank1 rejected nonblank2 strip_alpha launched2' nonblank3 launched3' show ?thesis
    by (intro conjI)
qed

end
